theory Spec2Isabelle
  imports Main "HOL-Library.Monad_Syntax" "HOL-Library.Sublist"
begin

section \<open>Strings and the Go library functions the handler calls\<close>

text \<open>
  A Go \<^verbatim>\<open>string\<close> is a sequence of bytes and so is a HOL \<open>string\<close>: the functions of
  package \<^verbatim>\<open>strings\<close> below compare bytes, as Go's do. The zero-width space U+200B of
  line 173 is the three bytes E2 80 8B of its UTF-8 encoding.
\<close>

definition zwsp :: string where
  "zwsp = [CHR 0xE2, CHR 0x80, CHR 0x8B]"

text \<open>\<^verbatim>\<open>strings.HasPrefix\<close>: \<^verbatim>\<open>len(s) >= len(prefix) && s[:len(prefix)] == prefix\<close>.\<close>

definition HasPrefix :: "string \<Rightarrow> string \<Rightarrow> bool" where
  "HasPrefix s pre = (length pre \<le> length s \<and> take (length pre) s = pre)"

text \<open>\<^verbatim>\<open>strings.HasSuffix\<close>: \<^verbatim>\<open>len(s) >= len(suffix) && s[len(s)-len(suffix):] == suffix\<close>.\<close>

definition HasSuffix :: "string \<Rightarrow> string \<Rightarrow> bool" where
  "HasSuffix s suf = (length suf \<le> length s \<and> drop (length s - length suf) s = suf)"

text \<open>
  \<^verbatim>\<open>strings.Index\<close> for a non-empty separator: the position of its first occurrence,
  \<open>None\<close> for Go's \<open>-1\<close>.
\<close>

fun Index :: "string \<Rightarrow> string \<Rightarrow> nat option" where
  "Index [] sep = None"
| "Index (c # cs) sep =
     (if HasPrefix (c # cs) sep then Some 0
      else (case Index cs sep of None \<Rightarrow> None | Some i \<Rightarrow> Some (Suc i)))"

text \<open>
  \<^verbatim>\<open>strings.SplitN(s, sep, 2)\<close> for a non-empty separator: the string is cut at the first
  occurrence of \<open>sep\<close>, and is the only element when there is none.
\<close>

definition SplitN2 :: "string \<Rightarrow> string \<Rightarrow> string list" where
  "SplitN2 s sep =
     (case Index s sep of
        None \<Rightarrow> [s]
      | Some i \<Rightarrow> [take i s, drop (i + length sep) s])"

text \<open>The element \<^verbatim>\<open>[0]\<close> of such a split; the slice is never empty.\<close>

definition first_of :: "string list \<Rightarrow> string" where
  "first_of xs = (case xs of [] \<Rightarrow> [] | x # _ \<Rightarrow> x)"

text \<open>
  \<^verbatim>\<open>strings.ReplaceAll(s, old, new)\<close> for a non-empty \<open>old\<close>: the occurrences of \<open>old\<close>
  are found from the left, without overlap, and each is replaced by \<open>new\<close>.
\<close>

fun ReplaceAll :: "string \<Rightarrow> string \<Rightarrow> string \<Rightarrow> string" where
  "ReplaceAll [] old new = []"
| "ReplaceAll (c # cs) old new =
     (if HasPrefix (c # cs) old
      then new @ ReplaceAll (drop (length old - 1) cs) old new
      else c # ReplaceAll cs old new)"

text \<open>
  \<^verbatim>\<open>path.Base\<close>: the empty path gives \<^verbatim>\<open>"."\<close>; trailing slashes are removed, then
  everything up to the last slash; a path of slashes only gives \<^verbatim>\<open>"/"\<close>.
\<close>

definition strip_trailing_slashes :: "string \<Rightarrow> string" where
  "strip_trailing_slashes p = rev (dropWhile (\<lambda>c. c = CHR ''/'') (rev p))"

definition after_last_slash :: "string \<Rightarrow> string" where
  "after_last_slash p = rev (takeWhile (\<lambda>c. c \<noteq> CHR ''/'') (rev p))"

definition Base :: "string \<Rightarrow> string" where
  "Base p =
     (if p = [] then ''.''
      else let q = after_last_slash (strip_trailing_slashes p)
           in if q = [] then ''/'' else q)"

section \<open>Documents of the metadata store\<close>

text \<open>
  \<^verbatim>\<open>bson.M\<close> is \<^verbatim>\<open>map[string]interface{}\<close>. A value is one of the Go values the driver
  decodes into; \<open>BNull\<close> is the \<^verbatim>\<open>nil\<close> interface, \<open>BOther\<close> stands for the remaining
  scalar types (doubles, dates, binary data), which the handler never inspects.
  A document is an association list read with \<open>map_of\<close>; indexing a Go map at a missing
  key gives the zero value, here \<^verbatim>\<open>nil\<close>.
\<close>

datatype bval =
    BNull
  | BBool bool
  | BStr string
  | BInt int
  | BObjectID string
  | BOther string
  | BArr "bval list"
  | BDoc "(string \<times> bval) list"

type_synonym doc = "(string \<times> bval) list"

definition get :: "doc \<Rightarrow> string \<Rightarrow> bval" where
  "get m k = (case map_of m k of None \<Rightarrow> BNull | Some v \<Rightarrow> v)"

text \<open>\<^verbatim>\<open>m[k] = v\<close>.\<close>

definition put :: "string \<Rightarrow> bval \<Rightarrow> doc \<Rightarrow> doc" where
  "put k v m = (k, v) # m"

text \<open>
  The type assertions \<^verbatim>\<open>x.(string)\<close> and \<^verbatim>\<open>x.(primitive.M)\<close> panic when the dynamic
  type is another one. A computation that may panic returns an \<open>option\<close>, and \<open>None\<close> is
  the panic.
\<close>

fun as_string :: "bval \<Rightarrow> string option" where
  "as_string (BStr s) = Some s"
| "as_string _ = None"

fun as_M :: "bval \<Rightarrow> doc option" where
  "as_M (BDoc d) = Some d"
| "as_M _ = None"

text \<open>
  \<^verbatim>\<open>x == true\<close> on an interface value holds exactly when the dynamic value is the
  boolean \<^verbatim>\<open>true\<close>.
\<close>

definition is_true :: "bval \<Rightarrow> bool" where
  "is_true v = (v = BBool True)"

text \<open>
  \<^verbatim>\<open>SingleResult.Decode(&file)\<close> with \<^verbatim>\<open>file\<close> of type \<^verbatim>\<open>bson.M\<close>: a \<^verbatim>\<open>nil\<close> map is
  replaced by a new one; in a map that already has entries the driver sets the keys of
  the decoded document and, by default, deletes none of the entries that are there. The
  decoded document therefore shadows the old entries, which is what matters at line 180,
  where the file record is decoded into the map that holds the alias record.
\<close>

definition Decode :: "doc \<Rightarrow> doc \<Rightarrow> doc" where
  "Decode file d = d @ file"

section \<open>The collaborators\<close>

datatype s3_result =
    GetObjectError string
  | ReadAllError string
  | Object string "string option"

record embed_data =
  FileURL :: string
  OEmbedURL :: string
  Desc :: string
  Color :: string
  Image :: bool
  Video :: bool
  User :: string
  Size :: string
  Name :: string

datatype page = EmbedPage embed_data | ShowLinkPage string

datatype tmpl = embedTemplate | showLinkTemplate

text \<open>
  What the handler reads and calls but does not define: the three collections
  (\<^verbatim>\<open>FindOne(filter).Decode\<close> gives the document found, \<open>None\<close> when it returns an error),
  the object store (\<^verbatim>\<open>svc.GetObject\<close> on bucket and key, then \<^verbatim>\<open>ioutil.ReadAll\<close>), the
  two environment variables, the template engine and the server's addresses.

  \<open>Parse\<close> gives the error of \<^verbatim>\<open>template.New(..).Parse\<close> if there is one.

  \<open>Execute\<close> is \<^verbatim>\<open>t.Execute(ctx, data)\<close> on the two templates of lines 46 to 106: \<open>Inr\<close>
  the text it wrote to the response, \<open>Inl\<close> the error it returned. The engine escapes a
  template before it writes, so an error of that step leaves the response as it was; and
  running these two templates on a struct of strings and booleans, into a response whose
  \<^verbatim>\<open>Write\<close> never fails, has no step that can fail once the writing has begun. An error
  therefore comes with nothing written.

  \<open>AbsoluteURI\<close> is the address that \<^verbatim>\<open>ctx.Redirect\<close> puts in the Location header: the
  server resolves the address it is given against the address of the request (its host
  and path are the first two arguments) and writes the result out again as an absolute
  address, so that \<^verbatim>\<open>https://example.com\<close> is sent as \<^verbatim>\<open>https://example.com/\<close>.
\<close>

record env =
  collection :: "bval \<Rightarrow> doc option"
  shortenerCol :: "string \<Rightarrow> doc option"
  invisibleURL :: "string \<Rightarrow> doc option"
  GetObject :: "string \<Rightarrow> string \<Rightarrow> s3_result"
  S3_ENDPOINT :: string
  S3_BUCKET_NAME :: string
  Parse :: "tmpl \<Rightarrow> string option"
  Execute :: "page \<Rightarrow> string + string"
  AbsoluteURI :: "string \<Rightarrow> string \<Rightarrow> string \<Rightarrow> string"

section \<open>The response\<close>

text \<open>
  \<^verbatim>\<open>json.NewEncoder(ctx).Encode(v)\<close> writes one JSON value and a newline; the value is
  kept as a syntax tree, the fields of a struct in the order of their declaration under
  their \<^verbatim>\<open>json\<close> tags. Encoding a struct of strings and booleans into the response
  cannot fail, so the \<^verbatim>\<open>log.Fatal\<close> of lines 154 and 299 is never reached. The body is
  the list of what was written, in order.
\<close>

datatype json = JString string | JBool bool | JObject "(string \<times> json) list"

datatype chunk = Bytes string | JsonLine json

record response =
  resp_status :: nat
  resp_location :: "string option"
  resp_content_type :: string
  resp_body :: "chunk list"

text \<open>
  The response of a fresh \<^verbatim>\<open>RequestCtx\<close>: status 200, no Location, no Content-Type
  set (the server then sends its default one), an empty body.
\<close>

definition fresh :: response where
  "fresh = \<lparr>resp_status = 200, resp_location = None,
            resp_content_type = [], resp_body = []\<rparr>"

text \<open>
  \<^verbatim>\<open>ctx.Redirect(uri, code)\<close>, in the request for \<open>requestPath\<close> on \<open>host\<close>: the Location
  header is set to the absolute form of \<open>uri\<close>, and the status code to \<open>code\<close>; 301 is
  one of the codes it keeps.
\<close>

definition Redirect ::
  "env \<Rightarrow> string \<Rightarrow> string \<Rightarrow> string \<Rightarrow> nat \<Rightarrow> response \<Rightarrow> response" where
  "Redirect e host requestPath uri code r =
     r\<lparr>resp_location := Some (AbsoluteURI e host requestPath uri), resp_status := code\<rparr>"

definition SetContentType :: "string \<Rightarrow> response \<Rightarrow> response" where
  "SetContentType t r = r\<lparr>resp_content_type := t\<rparr>"

definition SetBody :: "string \<Rightarrow> response \<Rightarrow> response" where
  "SetBody b r = r\<lparr>resp_body := [Bytes b]\<rparr>"

text \<open>\<^verbatim>\<open>ctx.Write\<close> appends to the body.\<close>

definition Write :: "chunk \<Rightarrow> response \<Rightarrow> response" where
  "Write c r = r\<lparr>resp_body := resp_body r @ [c]\<rparr>"

text \<open>Text written by a template; a template that wrote nothing leaves the body as it was.\<close>

definition WriteBytes :: "string \<Rightarrow> response \<Rightarrow> response" where
  "WriteBytes b r = (if b = [] then r else Write (Bytes b) r)"

definition Response_json :: "bool \<Rightarrow> string \<Rightarrow> json" where
  "Response_json success err = JObject [(''success'', JBool success), (''error'', JString err)]"

definition OEmbedResponse_json :: "string \<Rightarrow> string \<Rightarrow> string \<Rightarrow> string \<Rightarrow> json" where
  "OEmbedResponse_json version type title author =
     JObject [(''version'', JString version), (''type'', JString type),
              (''title'', JString title), (''author_name'', JString author)]"

text \<open>\<^verbatim>\<open>sendErr\<close>, lines 296 to 301.\<close>

definition sendErr :: "response \<Rightarrow> string \<Rightarrow> response" where
  "sendErr ctx errMsg =
     Write (JsonLine (Response_json False errMsg)) (SetContentType ''application/json'' ctx)"

text \<open>\<^verbatim>\<open>deref\<close>, lines 331 to 337.\<close>

definition deref :: "string option \<Rightarrow> string" where
  "deref str = (case str of Some s \<Rightarrow> s | None \<Rightarrow> [])"

section \<open>The request handler\<close>

text \<open>The conditions of the \<^verbatim>\<open>switch\<close> of line 131, in its order.\<close>

datatype strategy = RootRedirect | OEmbed | ShortLink | FileResolve | NoOp

definition classify :: "string \<Rightarrow> strategy" where
  "classify requestPath =
     (let basePath = Base requestPath in
      if requestPath = ''/'' then RootRedirect
      else if HasSuffix basePath ''.json'' then OEmbed
      else if HasPrefix requestPath ''/s/'' \<and> basePath \<noteq> ''s'' then ShortLink
      else if basePath \<noteq> [] \<and> basePath \<noteq> ''favicon.ico'' then FileResolve
      else NoOp)"

text \<open>Line 135: the key of the oembed lookup.\<close>

definition oembed_key :: "string \<Rightarrow> string" where
  "oembed_key basePath = first_of (SplitN2 basePath ''.json'')"

text \<open>Lines 134 to 155.\<close>

definition oembed_case :: "env \<Rightarrow> string \<Rightarrow> string \<Rightarrow> response \<Rightarrow> response option" where
  "oembed_case e host basePath ctx =
     (case collection e (BStr (oembed_key basePath)) of
        None \<Rightarrow> Some (sendErr ctx ''invalid file'')
      | Some file \<Rightarrow> do {
          embed \<leftarrow> as_M (get file ''embed'');
          title \<leftarrow> as_string (get embed ''title'');
          let embed = put ''title'' (BStr (ReplaceAll title ''{domain}'' host)) embed;
          author \<leftarrow> as_string (get embed ''author'');
          let embed = put ''author'' (BStr (ReplaceAll author ''{domain}'' host)) embed;
          let ctx = SetContentType ''application/json'' ctx;
          title \<leftarrow> as_string (get embed ''title'');
          author \<leftarrow> as_string (get embed ''author'');
          Some (Write (JsonLine (OEmbedResponse_json ''1.0'' ''link'' title author)) ctx)
        })"

text \<open>Lines 156 to 170.\<close>

definition shortlink_case ::
  "env \<Rightarrow> string \<Rightarrow> string \<Rightarrow> string \<Rightarrow> response \<Rightarrow> response option" where
  "shortlink_case e host requestPath basePath ctx =
     (case shortenerCol e basePath of
        None \<Rightarrow> Some (sendErr ctx ''invalid short link'')
      | Some shortened \<Rightarrow> do {
          destination \<leftarrow> as_string (get shortened ''destination'');
          destination \<leftarrow>
            (if \<not> HasPrefix destination ''http''
             then map_option (\<lambda>d. ''https://'' @ d) (as_string (get shortened ''destination''))
             else Some destination);
          Some (Redirect e host requestPath destination 301 ctx)
        })"

text \<open>
  Lines 172 to 192: the lookup of the file record; \<open>Inl\<close> is the response of an early
  return. After a successful \<^verbatim>\<open>Decode\<close> the map is not \<^verbatim>\<open>nil\<close>, so the test of line 179
  holds.
\<close>

definition lookup_file :: "env \<Rightarrow> string \<Rightarrow> response \<Rightarrow> response + doc" where
  "lookup_file e basePath ctx =
     (if HasSuffix basePath zwsp then
        (case invisibleURL e basePath of
           None \<Rightarrow> Inl (sendErr ctx ''no invisible url or file was found'')
         | Some alias \<Rightarrow>
             (let file = Decode [] alias in
              case collection e (get file ''filename'') of
                None \<Rightarrow> Inl (sendErr ctx ''invalid file'')
              | Some d \<Rightarrow> Inr (Decode file d)))
      else
        (case collection e (BStr basePath) of
           None \<Rightarrow> Inl (sendErr ctx ''invalid file'')
         | Some d \<Rightarrow> Inr (Decode [] d)))"

text \<open>
  Lines 256 to 261 and 281 to 286: the Content-Type is set, the template writes to the
  response, and the error envelope is written when it fails.
\<close>

definition execute_page :: "env \<Rightarrow> page \<Rightarrow> response \<Rightarrow> response" where
  "execute_page e data ctx =
     (let ctx = SetContentType ''text/html'' ctx
      in case Execute e data of
           Inr out \<Rightarrow> WriteBytes out ctx
         | Inl msg \<Rightarrow> sendErr ctx msg)"

text \<open>Lines 194 to 292: from the domain check to the response.\<close>

definition serve_file :: "env \<Rightarrow> string \<Rightarrow> doc \<Rightarrow> response \<Rightarrow> response option" where
  "serve_file e host file ctx = do {
     rejected \<leftarrow>
       (if is_true (get file ''userOnlyDomain'')
        then map_option (\<lambda>d. host \<noteq> d) (as_string (get file ''domain''))
        else Some False);
     if rejected then Some (sendErr ctx ''invalid file'')
     else do {
       key \<leftarrow> as_string (get file ''key'');
       (case GetObject e (S3_BUCKET_NAME e) key of
          GetObjectError msg \<Rightarrow> Some (sendErr ctx msg)
        | ReadAllError msg \<Rightarrow> Some (sendErr ctx msg)
        | Object body contentType \<Rightarrow> do {
            mt \<leftarrow> as_string (get file ''mimetype'');
            let mimetype = first_of (SplitN2 mt ''/'');
            key \<leftarrow> as_string (get file ''key'');
            let cdnURL = S3_ENDPOINT e @ ''/'' @ S3_BUCKET_NAME e @ ''/'' @ key;
            embed \<leftarrow> as_M (get file ''embed'');
            uploader \<leftarrow> as_M (get file ''uploader'');
            description \<leftarrow> as_string (get embed ''description'');
            let embed = put ''description''
                          (BStr (ReplaceAll description ''{domain}'' host)) embed;
            if is_true (get embed ''enabled'') then
              (case Parse e embedTemplate of
                 Some msg \<Rightarrow> Some (sendErr ctx msg)
               | None \<Rightarrow> do {
                   filename \<leftarrow> as_string (get file ''filename'');
                   desc \<leftarrow> as_string (get embed ''description'');
                   color \<leftarrow> as_string (get embed ''color'');
                   username \<leftarrow> as_string (get uploader ''username'');
                   name \<leftarrow> as_string (get file ''filename'');
                   size \<leftarrow> as_string (get file ''size'');
                   Some (execute_page e
                     (EmbedPage \<lparr>FileURL = cdnURL,
                                 OEmbedURL = ''https://'' @ host @ ''/'' @ filename @ ''.json'',
                                 Desc = desc,
                                 Color = color,
                                 Image = (mimetype = ''image''),
                                 Video = (mimetype = ''video''),
                                 User = username,
                                 Size = size,
                                 Name = name\<rparr>) ctx)
                 })
            else if is_true (get file ''showLink'') then
              (if mimetype = ''video''
               then Some (SetBody body (SetContentType (deref contentType) ctx))
               else (case Parse e showLinkTemplate of
                       Some msg \<Rightarrow> Some (sendErr ctx msg)
                     | None \<Rightarrow> Some (execute_page e (ShowLinkPage cdnURL) ctx)))
            else Some (SetBody body (SetContentType (deref contentType) ctx))
          })
     }
   }"

text \<open>Lines 171 to 292.\<close>

definition file_case :: "env \<Rightarrow> string \<Rightarrow> string \<Rightarrow> response \<Rightarrow> response option" where
  "file_case e host basePath ctx =
     (case lookup_file e basePath ctx of
        Inl r \<Rightarrow> Some r
      | Inr file \<Rightarrow> serve_file e host file ctx)"

text \<open>
  \<^verbatim>\<open>requestHandler\<close>, lines 126 to 294, on the path and the host of the request. The
  result is the response when the handler returns and \<open>None\<close> when it panics.
  \<^verbatim>\<open>ctx.Done()\<close> only returns a channel, which the handler drops.
\<close>

definition requestHandler :: "env \<Rightarrow> string \<Rightarrow> string \<Rightarrow> response option" where
  "requestHandler e host requestPath =
     (let basePath = Base requestPath; ctx = fresh in
      case classify requestPath of
        RootRedirect \<Rightarrow> Some (Redirect e host requestPath ''https://higure.wtf'' 301 ctx)
      | OEmbed \<Rightarrow> oembed_case e host basePath ctx
      | ShortLink \<Rightarrow> shortlink_case e host requestPath basePath ctx
      | FileResolve \<Rightarrow> file_case e host basePath ctx
      | NoOp \<Rightarrow> Some ctx)"

section \<open>What the specification says, in its own words\<close>

text \<open>
  The uniform error envelope: the JSON object \<^verbatim>\<open>{"success": false, "error": msg}\<close> with
  Content-Type \<^verbatim>\<open>application/json\<close> as the whole body of an otherwise untouched
  response.
\<close>

definition error_envelope :: "string \<Rightarrow> response" where
  "error_envelope msg =
     \<lparr>resp_status = 200, resp_location = None, resp_content_type = ''application/json'',
      resp_body = [JsonLine (JObject [(''success'', JBool False), (''error'', JString msg)])]\<rparr>"

text \<open>The pieces of a text joined by a separator.\<close>

fun join :: "string \<Rightarrow> string list \<Rightarrow> string" where
  "join sep [] = []"
| "join sep [p] = p"
| "join sep (p # q # ps) = p @ sep @ join sep (q # ps)"

text \<open>The mimetype category: the part of the mimetype before its first slash.\<close>

definition category :: "string \<Rightarrow> string" where
  "category mt = takeWhile (\<lambda>c. c \<noteq> CHR ''/'') mt"

section \<open>A small store to run the handler on\<close>

definition file_record ::
  "string \<Rightarrow> string \<Rightarrow> bval \<Rightarrow> string \<Rightarrow> bval \<Rightarrow> bval \<Rightarrow> doc" where
  "file_record filename mimetype userOnlyDomain domain showLink enabled =
     [(''_id'', BObjectID filename),
      (''filename'', BStr filename),
      (''key'', BStr (''u1/'' @ filename)),
      (''mimetype'', BStr mimetype),
      (''size'', BStr ''2 KB''),
      (''domain'', BStr domain),
      (''userOnlyDomain'', userOnlyDomain),
      (''showLink'', showLink),
      (''uploader'', BDoc [(''username'', BStr ''bob'')]),
      (''embed'', BDoc [(''enabled'', enabled),
                        (''title'', BStr ''{domain} - {domain}''),
                        (''author'', BStr ''{Domain} by {domain}''),
                        (''description'', BStr ''seen on {domain}''),
                        (''color'', BStr ''#{domain}'')])]"

text \<open>A file record that has no \<open>showLink\<close> field.\<close>

definition bare_record :: doc where
  "bare_record =
     [(''_id'', BObjectID ''bare.png''),
      (''filename'', BStr ''bare.png''),
      (''key'', BStr ''u1/bare.png''),
      (''mimetype'', BStr ''image/png''),
      (''size'', BStr ''2 KB''),
      (''uploader'', BDoc [(''username'', BStr ''bob'')]),
      (''embed'', BDoc [(''description'', BStr ''seen on {domain}'')])]"

definition demo_files :: "bval \<Rightarrow> doc option" where
  "demo_files v =
     (if v = BStr ''pic.png''
        then Some (file_record ''pic.png'' ''image/png'' (BBool True) ''a.com'' (BBool False) (BBool True))
      else if v = BStr ''clip.mp4''
        then Some (file_record ''clip.mp4'' ''video/mp4'' (BBool False) ''a.com'' (BBool True) (BBool False))
      else if v = BStr ''shot.png''
        then Some (file_record ''shot.png'' ''image/png'' (BBool False) ''a.com'' (BBool True) (BBool False))
      else if v = BStr ''notes.txt''
        then Some (file_record ''notes.txt'' ''text/plain'' (BStr ''true'') ''a.com'' (BStr ''true'') (BStr ''true''))
      else if v = BStr ''data.json''
        then Some (file_record ''data.json'' ''application/json'' (BBool False) ''a.com'' (BBool False) (BBool False))
      else if v = BStr ''broken.bin''
        then Some (file_record ''broken.bin'' ''application/octet-stream'' (BBool False) ''a.com'' (BBool False) (BBool False))
      else if v = BStr ''bare.png'' then Some bare_record
      else None)"

definition demo_aliases :: "string \<Rightarrow> doc option" where
  "demo_aliases k =
     (if k = ''abc'' @ zwsp then Some [(''_id'', BStr (''abc'' @ zwsp)), (''filename'', BStr ''pic.png'')]
      else if k = ''dj'' @ zwsp then Some [(''_id'', BStr (''dj'' @ zwsp)), (''filename'', BStr ''data.json'')]
      else if k = ''nt'' @ zwsp then Some [(''_id'', BStr (''nt'' @ zwsp)), (''filename'', BStr ''notes.txt'')]
      else if k = ''lost'' @ zwsp then Some [(''_id'', BStr (''lost'' @ zwsp)), (''filename'', BStr ''gone.png'')]
      else if k = ''b'' @ zwsp
        then Some [(''_id'', BStr (''b'' @ zwsp)), (''filename'', BStr ''bare.png''),
                   (''showLink'', BBool True)]
      else None)"

definition demo_shorteners :: "string \<Rightarrow> doc option" where
  "demo_shorteners k =
     (if k = ''x1'' then Some [(''shortId'', BStr ''x1''), (''destination'', BStr ''example.com/x'')]
      else if k = ''x2'' then Some [(''shortId'', BStr ''x2''), (''destination'', BStr ''http://example.com/x'')]
      else if k = ''x4'' then Some [(''shortId'', BStr ''x4''), (''destination'', BStr ''example.com'')]
      else if k = ''x5'' then Some [(''shortId'', BStr ''x5''), (''destination'', BStr ''httpfoo'')]
      else None)"

text \<open>
  The absolute form of the addresses this store redirects to: an address with a host and
  no path is sent with the path \<^verbatim>\<open>/\<close>; \<^verbatim>\<open>httpfoo\<close>, which has no host, is taken as a
  path beside the one of the request \<^verbatim>\<open>/s/x5\<close>; the others are sent as they are.
\<close>

definition demo_absolute :: "string \<Rightarrow> string \<Rightarrow> string \<Rightarrow> string" where
  "demo_absolute host requestPath uri =
     (if uri = ''https://higure.wtf'' then ''https://higure.wtf/''
      else if uri = ''https://example.com'' then ''https://example.com/''
      else if uri = ''httpfoo'' \<and> requestPath = ''/s/x5'' then ''http://'' @ host @ ''/s/httpfoo''
      else uri)"

definition demo_render :: "page \<Rightarrow> string" where
  "demo_render pg =
     (case pg of
        EmbedPage d \<Rightarrow> ''<html embed '' @ OEmbedURL d @ '' '' @ Desc d @ '' '' @ Color d @ ''>''
      | ShowLinkPage u \<Rightarrow> ''<html img '' @ u @ ''>'')"

definition demo :: env where
  "demo =
     \<lparr>collection = demo_files,
      shortenerCol = demo_shorteners,
      invisibleURL = demo_aliases,
      GetObject = (\<lambda>bucket key.
        if key = ''u1/broken.bin'' then GetObjectError ''NoSuchKey''
        else Object (''bytes of '' @ key) (Some ''type/of-object'')),
      S3_ENDPOINT = ''http://s3.local'',
      S3_BUCKET_NAME = ''bkt'',
      Parse = (\<lambda>t. None),
      Execute = (\<lambda>pg. Inr (demo_render pg)),
      AbsoluteURI = demo_absolute\<rparr>"

section \<open>Basic facts\<close>

lemma HasPrefix_prefix: "HasPrefix s p \<longleftrightarrow> prefix p s"
  unfolding HasPrefix_def prefix_def
  by (metis append_eq_conv_conj append_take_drop_id le_add1 length_append)

lemma HasSuffix_suffix: "HasSuffix s p \<longleftrightarrow> suffix p s"
  unfolding HasSuffix_def suffix_def
  by (metis append_eq_conv_conj append_take_drop_id diff_add_inverse2 le_add2 length_append length_drop)

lemma sendErr_fresh: "sendErr fresh msg = error_envelope msg"
  by (simp add: sendErr_def fresh_def error_envelope_def Write_def SetContentType_def
      Response_json_def)

lemmas path_defs = classify_def Base_def strip_trailing_slashes_def after_last_slash_def
  HasSuffix_def HasPrefix_def zwsp_def

lemmas demo_defs = demo_def demo_files_def demo_aliases_def demo_shorteners_def demo_absolute_def
  demo_render_def file_record_def bare_record_def

section \<open>Lookup misses\<close>

text \<open>
  Claim C7. A lookup that finds nothing ends the request with the error envelope and its
  fixed message, and the handler returns (it does not panic): \<open>invalid file\<close> for an
  unknown filename on the oembed path and on the file path (directly, or behind an alias
  that was found), \<open>invalid short link\<close> for an unknown shortId, and
  \<open>no invisible url or file was found\<close> for an unknown alias id.
\<close>

theorem C7_lookup_miss:
  "(classify p = OEmbed \<and> collection e (BStr (oembed_key (Base p))) = None
      \<longrightarrow> requestHandler e host p = Some (error_envelope ''invalid file''))
   \<and> (classify p = ShortLink \<and> shortenerCol e (Base p) = None
      \<longrightarrow> requestHandler e host p = Some (error_envelope ''invalid short link''))
   \<and> (classify p = FileResolve \<and> suffix zwsp (Base p) \<and> invisibleURL e (Base p) = None
      \<longrightarrow> requestHandler e host p = Some (error_envelope ''no invisible url or file was found''))
   \<and> (classify p = FileResolve \<and> suffix zwsp (Base p) \<and> invisibleURL e (Base p) = Some alias
        \<and> collection e (get alias ''filename'') = None
      \<longrightarrow> requestHandler e host p = Some (error_envelope ''invalid file''))
   \<and> (classify p = FileResolve \<and> \<not> suffix zwsp (Base p) \<and> collection e (BStr (Base p)) = None
      \<longrightarrow> requestHandler e host p = Some (error_envelope ''invalid file''))"
  by (simp add: requestHandler_def oembed_case_def shortlink_case_def file_case_def
      lookup_file_def sendErr_fresh HasSuffix_suffix Decode_def)


theorem C7_lookup_miss_witness:
  "requestHandler demo ''a.com'' ''/nothing.png.json'' = Some (error_envelope ''invalid file'')
   \<and> requestHandler demo ''a.com'' ''/s/x3'' = Some (error_envelope ''invalid short link'')
   \<and> requestHandler demo ''a.com'' (''/none'' @ zwsp)
       = Some (error_envelope ''no invisible url or file was found'')
   \<and> requestHandler demo ''a.com'' (''/lost'' @ zwsp) = Some (error_envelope ''invalid file'')
   \<and> requestHandler demo ''a.com'' ''/nothing.png'' = Some (error_envelope ''invalid file'')"
proof -
  have 1: "classify ''/nothing.png.json'' = OEmbed
      \<and> collection demo (BStr (oembed_key (Base ''/nothing.png.json''))) = None"
    by (simp add: path_defs demo_defs oembed_key_def SplitN2_def first_of_def)
  have 2: "classify ''/s/x3'' = ShortLink \<and> shortenerCol demo (Base ''/s/x3'') = None"
    by (simp add: path_defs demo_defs)
  have 3: "classify (''/none'' @ zwsp) = FileResolve \<and> suffix zwsp (Base (''/none'' @ zwsp))
      \<and> invisibleURL demo (Base (''/none'' @ zwsp)) = None"
    by (simp add: path_defs demo_defs flip: HasSuffix_suffix)
  have 4: "classify (''/lost'' @ zwsp) = FileResolve \<and> suffix zwsp (Base (''/lost'' @ zwsp))
      \<and> invisibleURL demo (Base (''/lost'' @ zwsp))
          = Some [(''_id'', BStr (''lost'' @ zwsp)), (''filename'', BStr ''gone.png'')]
      \<and> collection demo (get [(''_id'', BStr (''lost'' @ zwsp)), (''filename'', BStr ''gone.png'')]
          ''filename'') = None"
    by (simp add: path_defs demo_defs get_def flip: HasSuffix_suffix)
  have 5: "classify ''/nothing.png'' = FileResolve \<and> \<not> suffix zwsp (Base ''/nothing.png'')
      \<and> collection demo (BStr (Base ''/nothing.png'')) = None"
    by (simp add: path_defs demo_defs flip: HasSuffix_suffix)
  note a = C7_lookup_miss [of "''/nothing.png.json''" demo "''a.com''", THEN conjunct1, rule_format, OF 1]
  note b = C7_lookup_miss [of "''/s/x3''" demo "''a.com''", THEN conjunct2, THEN conjunct1, rule_format, OF 2]
  note c = C7_lookup_miss [of "''/none'' @ zwsp" demo "''a.com''", THEN conjunct2, THEN conjunct2,
      THEN conjunct1, rule_format, OF 3]
  note d = C7_lookup_miss [of "''/lost'' @ zwsp" demo "''a.com''", THEN conjunct2, THEN conjunct2,
      THEN conjunct2, THEN conjunct1, rule_format, OF 4]
  note e = C7_lookup_miss [of "''/nothing.png''" demo "''a.com''", THEN conjunct2, THEN conjunct2,
      THEN conjunct2, THEN conjunct2, rule_format, OF 5]
  from a b c d e show ?thesis by (intro conjI)
qed

lemma get_put: "get (put k v m) k' = (if k' = k then v else get m k')"
  by (simp add: get_def put_def)

section \<open>Short links\<close>

text \<open>
  Claim C4. When the short link record is found (and its destination is a string), the
  redirect target is the destination itself if it begins with \<open>http\<close>, and
  \<open>https://\<close> followed by the destination otherwise; the handler answers with the
  redirect to that target, of status 301, whose Location header is the absolute form the
  server gives the target.
\<close>

theorem C4_shortlink_redirect:
  assumes "classify p = ShortLink"
    and "shortenerCol e (Base p) = Some shortened"
    and "get shortened ''destination'' = BStr destination"
  shows "requestHandler e host p =
           Some \<lparr>resp_status = 301,
                 resp_location = Some (AbsoluteURI e host p
                   (if prefix ''http'' destination then destination
                    else ''https://'' @ destination)),
                 resp_content_type = [],
                 resp_body = []\<rparr>"
  using assms
  by (simp add: requestHandler_def shortlink_case_def Redirect_def fresh_def HasPrefix_prefix)

theorem C4_shortlink_redirect_witness:
  "requestHandler demo ''a.com'' ''/s/x1'' =
     Some \<lparr>resp_status = 301, resp_location = Some ''https://example.com/x'',
           resp_content_type = [], resp_body = []\<rparr>
   \<and> requestHandler demo ''a.com'' ''/s/x2'' =
     Some \<lparr>resp_status = 301, resp_location = Some ''http://example.com/x'',
           resp_content_type = [], resp_body = []\<rparr>
   \<and> requestHandler demo ''a.com'' ''/s/x4'' =
     Some \<lparr>resp_status = 301, resp_location = Some ''https://example.com/'',
           resp_content_type = [], resp_body = []\<rparr>
   \<and> requestHandler demo ''a.com'' ''/s/x5'' =
     Some \<lparr>resp_status = 301, resp_location = Some ''http://a.com/s/httpfoo'',
           resp_content_type = [], resp_body = []\<rparr>"
proof -
  have c1: "classify ''/s/x1'' = ShortLink" and c2: "classify ''/s/x2'' = ShortLink"
    and c4: "classify ''/s/x4'' = ShortLink" and c5: "classify ''/s/x5'' = ShortLink"
    by (simp_all add: path_defs)
  have s5: "shortenerCol demo (Base ''/s/x5'')
      = Some [(''shortId'', BStr ''x5''), (''destination'', BStr ''httpfoo'')]"
    by (simp add: path_defs demo_defs)
  have d5: "get [(''shortId'', BStr ''x5''), (''destination'', BStr ''httpfoo'')]
      ''destination'' = BStr ''httpfoo''"
    by (simp add: get_def)
  have s1: "shortenerCol demo (Base ''/s/x1'')
      = Some [(''shortId'', BStr ''x1''), (''destination'', BStr ''example.com/x'')]"
    and s2: "shortenerCol demo (Base ''/s/x2'')
      = Some [(''shortId'', BStr ''x2''), (''destination'', BStr ''http://example.com/x'')]"
    and s4: "shortenerCol demo (Base ''/s/x4'')
      = Some [(''shortId'', BStr ''x4''), (''destination'', BStr ''example.com'')]"
    by (simp_all add: path_defs demo_defs)
  have d1: "get [(''shortId'', BStr ''x1''), (''destination'', BStr ''example.com/x'')]
      ''destination'' = BStr ''example.com/x''"
    and d2: "get [(''shortId'', BStr ''x2''), (''destination'', BStr ''http://example.com/x'')]
      ''destination'' = BStr ''http://example.com/x''"
    and d4: "get [(''shortId'', BStr ''x4''), (''destination'', BStr ''example.com'')]
      ''destination'' = BStr ''example.com''"
    by (simp_all add: get_def)
  have a: "AbsoluteURI demo = demo_absolute"
    by (simp add: demo_def)
  from C4_shortlink_redirect [OF c1 s1 d1, of "''a.com''"]
  have "requestHandler demo ''a.com'' ''/s/x1'' =
     Some \<lparr>resp_status = 301, resp_location = Some ''https://example.com/x'',
           resp_content_type = [], resp_body = []\<rparr>"
    by (simp add: a demo_absolute_def)
  moreover from C4_shortlink_redirect [OF c2 s2 d2, of "''a.com''"]
  have "requestHandler demo ''a.com'' ''/s/x2'' =
     Some \<lparr>resp_status = 301, resp_location = Some ''http://example.com/x'',
           resp_content_type = [], resp_body = []\<rparr>"
    by (simp add: a demo_absolute_def)
  moreover from C4_shortlink_redirect [OF c4 s4 d4, of "''a.com''"]
  have "requestHandler demo ''a.com'' ''/s/x4'' =
     Some \<lparr>resp_status = 301, resp_location = Some ''https://example.com/'',
           resp_content_type = [], resp_body = []\<rparr>"
    by (simp add: a demo_absolute_def)
  moreover from C4_shortlink_redirect [OF c5 s5 d5, of "''a.com''"]
  have "requestHandler demo ''a.com'' ''/s/x5'' =
     Some \<lparr>resp_status = 301, resp_location = Some ''http://a.com/s/httpfoo'',
           resp_content_type = [], resp_body = []\<rparr>"
    by (simp add: a demo_absolute_def)
  ultimately show ?thesis by (intro conjI)
qed

section \<open>The oEmbed document\<close>

text \<open>
  Claim C9. A successful oembed request is answered with Content-Type
  \<open>application/json\<close> and a JSON object of exactly four fields: \<open>version\<close> \<open>1.0\<close>,
  \<open>type\<close> \<open>link\<close>, \<open>title\<close> and \<open>author_name\<close>, the last two being the
  record's embed title and author after the substitution of the host.
\<close>

theorem C9_oembed_document:
  assumes "classify p = OEmbed"
    and "collection e (BStr (oembed_key (Base p))) = Some file"
    and "get file ''embed'' = BDoc em"
    and "get em ''title'' = BStr title"
    and "get em ''author'' = BStr author"
  shows "requestHandler e host p =
           Some \<lparr>resp_status = 200, resp_location = None,
                 resp_content_type = ''application/json'',
                 resp_body = [JsonLine (JObject
                   [(''version'', JString ''1.0''),
                    (''type'', JString ''link''),
                    (''title'', JString (ReplaceAll title ''{domain}'' host)),
                    (''author_name'', JString (ReplaceAll author ''{domain}'' host))])]\<rparr>"
  using assms
  by (simp add: requestHandler_def oembed_case_def get_put fresh_def SetContentType_def
      Write_def OEmbedResponse_json_def)

theorem C9_oembed_document_witness:
  "requestHandler demo ''a.com'' ''/pic.png.json'' =
     Some \<lparr>resp_status = 200, resp_location = None,
           resp_content_type = ''application/json'',
           resp_body = [JsonLine (JObject
             [(''version'', JString ''1.0''),
              (''type'', JString ''link''),
              (''title'', JString ''a.com - a.com''),
              (''author_name'', JString ''{Domain} by a.com'')])]\<rparr>"
proof -
  let ?f = "file_record ''pic.png'' ''image/png'' (BBool True) ''a.com'' (BBool False) (BBool True)"
  let ?em = "[(''enabled'', BBool True), (''title'', BStr ''{domain} - {domain}''),
              (''author'', BStr ''{Domain} by {domain}''),
              (''description'', BStr ''seen on {domain}''), (''color'', BStr ''#{domain}'')]"
  have c: "classify ''/pic.png.json'' = OEmbed"
    by (simp add: path_defs)
  have f: "collection demo (BStr (oembed_key (Base ''/pic.png.json''))) = Some ?f"
    by (simp add: path_defs demo_def demo_files_def oembed_key_def SplitN2_def first_of_def)
  have em: "get ?f ''embed'' = BDoc ?em"
    by (simp add: file_record_def get_def)
  have t: "get ?em ''title'' = BStr ''{domain} - {domain}''"
    and a: "get ?em ''author'' = BStr ''{Domain} by {domain}''"
    by (simp_all add: get_def)
  from C9_oembed_document [OF c f em t a, of "''a.com''"]
  show ?thesis by (simp add: HasPrefix_def)
qed


section \<open>The domain check\<close>

lemma get_Decode: "get (Decode file d) k = (if k \<in> fst ` set d then get d k else get file k)"
  by (auto simp: get_def Decode_def map_add_def domIff
      simp flip: dom_map_of_conv_image_fst split: option.splits)

lemma get_Decode_Nil: "get (Decode [] d) k = get d k"
  by (simp add: Decode_def)

lemma get_present: "get d k \<noteq> BNull \<Longrightarrow> k \<in> fst ` set d"
  by (auto simp: get_def domIff simp flip: dom_map_of_conv_image_fst split: option.splits)

lemma get_Decode_present: "get d k \<noteq> BNull \<Longrightarrow> get (Decode file d) k = get d k"
  by (simp add: get_Decode get_present)

lemma serve_file_rejected:
  assumes "get file ''userOnlyDomain'' = BBool True" and "get file ''domain'' = BStr d"
    and "host \<noteq> d"
  shows "serve_file e host file fresh = Some (error_envelope ''invalid file'')"
  using assms by (simp add: serve_file_def is_true_def sendErr_fresh)

text \<open>
  Claim C1. When the file record found has \<open>userOnlyDomain\<close> true and a domain other
  than the request host, the request fails with the message \<open>invalid file\<close>, and the
  response is the one the same request gets when the store has no file record under
  that filename; both for a direct request and for a request through an alias.
\<close>

theorem C1_domain_rejection:
  "(classify p = FileResolve \<and> \<not> suffix zwsp (Base p)
      \<and> collection e (BStr (Base p)) = Some f
      \<and> get f ''userOnlyDomain'' = BBool True \<and> get f ''domain'' = BStr d \<and> host \<noteq> d
    \<longrightarrow> requestHandler e host p = Some (error_envelope ''invalid file'')
      \<and> requestHandler (e\<lparr>collection := (collection e)(BStr (Base p) := None)\<rparr>) host p
          = requestHandler e host p)
   \<and> (classify p = FileResolve \<and> suffix zwsp (Base p)
      \<and> invisibleURL e (Base p) = Some alias
      \<and> collection e (get alias ''filename'') = Some f
      \<and> get f ''userOnlyDomain'' = BBool True \<and> get f ''domain'' = BStr d \<and> host \<noteq> d
    \<longrightarrow> requestHandler e host p = Some (error_envelope ''invalid file'')
      \<and> requestHandler (e\<lparr>collection := (collection e)(get alias ''filename'' := None)\<rparr>) host p
          = requestHandler e host p)"
proof (intro conjI impI; elim conjE)
  assume a: "classify p = FileResolve" "\<not> suffix zwsp (Base p)"
    "collection e (BStr (Base p)) = Some f"
    "get f ''userOnlyDomain'' = BBool True" "get f ''domain'' = BStr d" "host \<noteq> d"
  have "serve_file e host (Decode [] f) fresh = Some (error_envelope ''invalid file'')"
    using a by (intro serve_file_rejected) (simp_all add: get_Decode_Nil)
  then show r: "requestHandler e host p = Some (error_envelope ''invalid file'')"
    using a by (simp add: requestHandler_def file_case_def lookup_file_def HasSuffix_suffix)
  show "requestHandler (e\<lparr>collection := (collection e)(BStr (Base p) := None)\<rparr>) host p
          = requestHandler e host p"
    unfolding r using a
    by (simp add: requestHandler_def file_case_def lookup_file_def HasSuffix_suffix
        sendErr_fresh)
next
  assume a: "classify p = FileResolve" "suffix zwsp (Base p)"
    "invisibleURL e (Base p) = Some alias"
    "collection e (get alias ''filename'') = Some f"
    "get f ''userOnlyDomain'' = BBool True" "get f ''domain'' = BStr d" "host \<noteq> d"
  have "serve_file e host (Decode (Decode [] alias) f) fresh
          = Some (error_envelope ''invalid file'')"
    using a by (intro serve_file_rejected) (simp_all add: get_Decode_present)
  then show r: "requestHandler e host p = Some (error_envelope ''invalid file'')"
    using a
    by (simp add: requestHandler_def file_case_def lookup_file_def HasSuffix_suffix
        get_Decode_Nil)
  show "requestHandler (e\<lparr>collection := (collection e)(get alias ''filename'' := None)\<rparr>) host p
          = requestHandler e host p"
    unfolding r using a
    by (simp add: requestHandler_def file_case_def lookup_file_def HasSuffix_suffix
        sendErr_fresh get_Decode_Nil)
qed


theorem C1_domain_rejection_witness:
  "(requestHandler demo ''b.com'' ''/pic.png'' = Some (error_envelope ''invalid file'')
    \<and> requestHandler (demo\<lparr>collection := (collection demo)(BStr (Base ''/pic.png'') := None)\<rparr>)
          ''b.com'' ''/pic.png''
        = requestHandler demo ''b.com'' ''/pic.png'')
   \<and> (requestHandler demo ''b.com'' (''/abc'' @ zwsp) = Some (error_envelope ''invalid file'')
    \<and> requestHandler (demo\<lparr>collection := (collection demo)
            (get [(''_id'', BStr (''abc'' @ zwsp)), (''filename'', BStr ''pic.png'')] ''filename''
               := None)\<rparr>)
          ''b.com'' (''/abc'' @ zwsp)
        = requestHandler demo ''b.com'' (''/abc'' @ zwsp))"
proof -
  let ?f = "file_record ''pic.png'' ''image/png'' (BBool True) ''a.com'' (BBool False) (BBool True)"
  let ?al = "[(''_id'', BStr (''abc'' @ zwsp)), (''filename'', BStr ''pic.png'')]"
  have f: "get ?f ''userOnlyDomain'' = BBool True \<and> get ?f ''domain'' = BStr ''a.com''
      \<and> ''b.com'' \<noteq> ''a.com''"
    by (simp add: file_record_def get_def)
  have 1: "classify ''/pic.png'' = FileResolve \<and> \<not> suffix zwsp (Base ''/pic.png'')
      \<and> collection demo (BStr (Base ''/pic.png'')) = Some ?f"
    by (simp add: path_defs demo_def demo_files_def flip: HasSuffix_suffix)
  have 2: "classify (''/abc'' @ zwsp) = FileResolve \<and> suffix zwsp (Base (''/abc'' @ zwsp))
      \<and> invisibleURL demo (Base (''/abc'' @ zwsp)) = Some ?al
      \<and> collection demo (get ?al ''filename'') = Some ?f"
    by (simp add: path_defs demo_def demo_files_def demo_aliases_def get_def
        flip: HasSuffix_suffix)
  note a = C1_domain_rejection [of "''/pic.png''" demo ?f "''a.com''" "''b.com''",
      THEN conjunct1, rule_format]
  note b = C1_domain_rejection [of "''/abc'' @ zwsp" demo ?f "''a.com''" "''b.com''" ?al,
      THEN conjunct2, rule_format]
  from 1 f have "requestHandler demo ''b.com'' ''/pic.png'' = Some (error_envelope ''invalid file'')
    \<and> requestHandler (demo\<lparr>collection := (collection demo)(BStr (Base ''/pic.png'') := None)\<rparr>)
          ''b.com'' ''/pic.png''
        = requestHandler demo ''b.com'' ''/pic.png''"
    by (intro a conjI) (elim conjE; assumption)+
  moreover from 2 f
  have "requestHandler demo ''b.com'' (''/abc'' @ zwsp) = Some (error_envelope ''invalid file'')
    \<and> requestHandler (demo\<lparr>collection := (collection demo)(get ?al ''filename'' := None)\<rparr>)
          ''b.com'' (''/abc'' @ zwsp)
        = requestHandler demo ''b.com'' (''/abc'' @ zwsp)"
    by (intro b conjI) (elim conjE; assumption)+
  ultimately show ?thesis by (rule conjI)
qed

section \<open>The choice of the response\<close>

lemma Index_single:
  "Index s [c] = (if c \<in> set s then Some (length (takeWhile (\<lambda>x. x \<noteq> c) s)) else None)"
  by (induction s) (auto simp: HasPrefix_def)

lemma first_of_SplitN2_slash: "first_of (SplitN2 mt ''/'') = category mt"
proof (cases "CHR ''/'' \<in> set mt")
  case True
  then show ?thesis
    by (simp add: SplitN2_def Index_single first_of_def category_def flip: takeWhile_eq_take)
next
  case False
  then have "takeWhile (\<lambda>x. x \<noteq> CHR ''/'') mt = mt"
    by (intro takeWhile_eq_all_conv [THEN iffD2]) auto
  then have "category mt = mt"
    by (simp only: category_def)
  with False show ?thesis
    by (simp add: SplitN2_def Index_single first_of_def)
qed

lemma requestHandler_file:
  assumes "classify p = FileResolve" and "lookup_file e (Base p) fresh = Inr file"
  shows "requestHandler e host p = serve_file e host file fresh"
  using assms by (simp add: requestHandler_def file_case_def)

text \<open>The handler after the fetch, for a record whose fields have the types it asserts.\<close>

lemma serve_file_fetched:
  assumes "\<not> is_true (get file ''userOnlyDomain'') \<or> get file ''domain'' = BStr host"
    and "get file ''key'' = BStr key"
    and "GetObject e (S3_BUCKET_NAME e) key = Object body contentType"
    and "get file ''mimetype'' = BStr mt"
    and "get file ''embed'' = BDoc em"
    and "get file ''uploader'' = BDoc up"
    and "get em ''description'' = BStr description"
  shows "serve_file e host file ctx =
     (if is_true (get em ''enabled'') then
        (case Parse e embedTemplate of
           Some msg \<Rightarrow> Some (sendErr ctx msg)
         | None \<Rightarrow> do {
             filename \<leftarrow> as_string (get file ''filename'');
             color \<leftarrow> as_string (get em ''color'');
             username \<leftarrow> as_string (get up ''username'');
             size \<leftarrow> as_string (get file ''size'');
             Some (execute_page e
               (EmbedPage \<lparr>FileURL = S3_ENDPOINT e @ ''/'' @ S3_BUCKET_NAME e @ ''/'' @ key,
                           OEmbedURL = ''https://'' @ host @ ''/'' @ filename @ ''.json'',
                           Desc = ReplaceAll description ''{domain}'' host,
                           Color = color,
                           Image = (category mt = ''image''),
                           Video = (category mt = ''video''),
                           User = username,
                           Size = size,
                           Name = filename\<rparr>) ctx)
           })
      else if is_true (get file ''showLink'') then
        (if category mt = ''video''
         then Some (SetBody body (SetContentType (deref contentType) ctx))
         else (case Parse e showLinkTemplate of
                 Some msg \<Rightarrow> Some (sendErr ctx msg)
               | None \<Rightarrow> Some (execute_page e
                   (ShowLinkPage (S3_ENDPOINT e @ ''/'' @ S3_BUCKET_NAME e @ ''/'' @ key)) ctx)))
      else Some (SetBody body (SetContentType (deref contentType) ctx)))"
proof -
  have rej: "(if is_true (get file ''userOnlyDomain'')
        then map_option (\<lambda>d. host \<noteq> d) (as_string (get file ''domain''))
        else Some False) = Some False"
    using assms(1) by auto
  show ?thesis
    unfolding serve_file_def rej
    by (simp add: assms(2-) get_put first_of_SplitN2_slash split: option.splits bind_splits)
qed



lemma raw_bytes:
  "SetBody body (SetContentType t fresh) =
     \<lparr>resp_status = 200, resp_location = None, resp_content_type = t,
      resp_body = [Bytes body]\<rparr>"
  by (simp add: SetBody_def SetContentType_def fresh_def)




section \<open>The substitution of the host\<close>

lemma ReplaceAll_absent:
  "tok \<noteq> [] \<Longrightarrow> \<not> sublist tok s \<Longrightarrow> ReplaceAll s tok new = s"
  by (induction s) (auto simp: HasPrefix_prefix sublist_Cons_right)

lemma ReplaceAll_at_prefix:
  "tok \<noteq> [] \<Longrightarrow> ReplaceAll (tok @ b) tok new = new @ ReplaceAll b tok new"
  by (cases tok) (simp_all add: HasPrefix_def)

text \<open>
  A token whose first character does not occur again in it cannot begin inside a text
  and end inside an occurrence of the token that follows the text.
\<close>

lemma prefix_before_token:
  assumes "tok \<noteq> []" and "hd tok \<notin> set (tl tok)"
    and "prefix tok (a @ tok @ b)" and "a \<noteq> []"
  shows "prefix tok a"
proof -
  from assms(3) have "prefix tok a \<or> (\<exists>us. tok = a @ us \<and> prefix us (tok @ b))"
    by (simp only: prefix_append)
  then show ?thesis
  proof (elim disjE exE conjE)
    fix us
    assume t: "tok = a @ us" and p: "prefix us (tok @ b)"
    obtain x a' where a: "a = x # a'"
      using assms(4) by (cases a) simp_all
    obtain y tok' where tk: "tok = y # tok'"
      using assms(1) by (cases tok) simp_all
    show ?thesis
    proof (cases us)
      case Nil
      then have "tok = a" using t by simp
      then show ?thesis by simp
    next
      case (Cons u us')
      have "y # tok' = (x # a') @ u # us'"
        using t unfolding tk a Cons .
      then have "u \<in> set tok'" by simp
      moreover have "prefix (u # us') ((y # tok') @ b)"
        using p unfolding tk Cons .
      then have "u = y" by simp
      ultimately have "hd tok \<in> set (tl tok)"
        unfolding tk by simp
      with assms(2) show ?thesis by simp
    qed
  qed
qed

lemma ReplaceAll_first:
  assumes "tok \<noteq> []" and "hd tok \<notin> set (tl tok)" and "\<not> sublist tok a"
  shows "ReplaceAll (a @ tok @ b) tok new = a @ new @ ReplaceAll b tok new"
  using assms(3)
proof (induction a)
  case Nil
  show ?case using assms(1) by (simp add: ReplaceAll_at_prefix)
next
  case (Cons x a)
  have "\<not> prefix tok ((x # a) @ tok @ b)"
    using prefix_before_token [OF assms(1,2), of "x # a" b] Cons.prems
    by (auto dest: prefix_imp_sublist)
  moreover have "\<not> sublist tok a"
    using Cons.prems by (simp add: sublist_Cons_right)
  ultimately show ?case
    using Cons.IH by (simp add: HasPrefix_prefix)
qed

lemma ReplaceAll_join:
  assumes "tok \<noteq> []" and "hd tok \<notin> set (tl tok)" and "\<forall>p\<in>set ps. \<not> sublist tok p"
  shows "ReplaceAll (join tok ps) tok new = join new ps"
  using assms(3)
proof (induction ps rule: induct_list012)
  case 1
  show ?case by simp
next
  case (2 p)
  then show ?case using assms(1) by (simp add: ReplaceAll_absent)
next
  case (3 p q ps)
  then show ?case using assms(1,2) by (simp add: ReplaceAll_first)
qed


text \<open>Every text is such a join: the theorem below speaks of all titles and authors.\<close>

lemma first_occurrence:
  assumes "tok \<noteq> []" and "sublist tok s"
  shows "\<exists>a b. s = a @ tok @ b \<and> \<not> sublist tok a"
  using assms(2)
proof (induction s)
  case Nil
  then show ?case using assms(1) by simp
next
  case (Cons c s)
  show ?case
  proof (cases "prefix tok (c # s)")
    case True
    then obtain b where "c # s = [] @ tok @ b"
      by (auto simp: prefix_def)
    moreover have "\<not> sublist tok []"
      using assms(1) by simp
    ultimately show ?thesis by blast
  next
    case False
    with Cons.prems have "sublist tok s"
      by (simp add: sublist_Cons_right)
    then obtain a b where ab: "s = a @ tok @ b" "\<not> sublist tok a"
      using Cons.IH by blast
    have "\<not> prefix tok (c # a)"
      using False unfolding ab(1) by (metis append_Cons prefix_prefix)
    with ab(2) have "\<not> sublist tok (c # a)"
      by (simp add: sublist_Cons_right)
    moreover have "c # s = (c # a) @ tok @ b"
      using ab(1) by simp
    ultimately show ?thesis by blast
  qed
qed

lemma join_decomposition:
  assumes "tok \<noteq> []"
  shows "\<exists>ps. s = join tok ps \<and> (\<forall>p\<in>set ps. \<not> sublist tok p)"
proof (induction s rule: length_induct)
  case (1 s)
  show ?case
  proof (cases "sublist tok s")
    case False
    then have "s = join tok [s] \<and> (\<forall>p\<in>set [s]. \<not> sublist tok p)"
      by simp
    then show ?thesis by blast
  next
    case True
    then obtain a b where ab: "s = a @ tok @ b" "\<not> sublist tok a"
      using first_occurrence [OF assms] by blast
    then have "length b < length s"
      using assms by simp
    then obtain ps where ps: "b = join tok ps" "\<forall>p\<in>set ps. \<not> sublist tok p"
      using 1 by blast
    show ?thesis
    proof (cases ps)
      case Nil
      with ps ab assms have "s = join tok [a, []] \<and> (\<forall>p\<in>set [a, []]. \<not> sublist tok p)"
        by simp
      then show ?thesis by blast
    next
      case (Cons q qs)
      with ps ab have "s = join tok (a # ps) \<and> (\<forall>p\<in>set (a # ps). \<not> sublist tok p)"
        by simp
      then show ?thesis by blast
    qed
  qed
qed


text \<open>
  Claim C5. The token \<open>{domain}\<close> is replaced by the request host, at every
  occurrence and nowhere else, with the host inserted as it is: a text made of pieces
  free of the token and joined by the token comes out as the same pieces joined by the
  host. This is done to the title and the author of the oEmbed document, and to the
  description given to the embed page; the color, the uploader's name, the filename and
  the size reach the page as they are stored.
\<close>

theorem C5_domain_substitution:
  "(classify p = OEmbed \<and> collection e (BStr (oembed_key (Base p))) = Some file
      \<and> get file ''embed'' = BDoc em
      \<and> get em ''title'' = BStr (join ''{domain}'' ts)
      \<and> get em ''author'' = BStr (join ''{domain}'' us)
      \<and> (\<forall>t\<in>set ts. \<not> sublist ''{domain}'' t) \<and> (\<forall>u\<in>set us. \<not> sublist ''{domain}'' u)
    \<longrightarrow> requestHandler e host p =
          Some \<lparr>resp_status = 200, resp_location = None,
                resp_content_type = ''application/json'',
                resp_body = [JsonLine (JObject
                  [(''version'', JString ''1.0''),
                   (''type'', JString ''link''),
                   (''title'', JString (join host ts)),
                   (''author_name'', JString (join host us))])]\<rparr>)
   \<and> (classify p = FileResolve \<and> lookup_file e (Base p) fresh = Inr file
      \<and> (get file ''userOnlyDomain'' \<noteq> BBool True \<or> get file ''domain'' = BStr host)
      \<and> get file ''key'' = BStr key
      \<and> GetObject e (S3_BUCKET_NAME e) key = Object body contentType
      \<and> get file ''mimetype'' = BStr mt
      \<and> get file ''embed'' = BDoc em
      \<and> get file ''uploader'' = BDoc up
      \<and> get em ''description'' = BStr (join ''{domain}'' ds)
      \<and> (\<forall>d\<in>set ds. \<not> sublist ''{domain}'' d)
      \<and> get em ''enabled'' = BBool True \<and> Parse e embedTemplate = None
      \<and> get file ''filename'' = BStr filename \<and> get em ''color'' = BStr color
      \<and> get up ''username'' = BStr username \<and> get file ''size'' = BStr sz
    \<longrightarrow> requestHandler e host p =
          Some (execute_page e (EmbedPage
            \<lparr>FileURL = S3_ENDPOINT e @ ''/'' @ S3_BUCKET_NAME e @ ''/'' @ key,
             OEmbedURL = ''https://'' @ host @ ''/'' @ filename @ ''.json'',
             Desc = join host ds,
             Color = color,
             Image = (category mt = ''image''),
             Video = (category mt = ''video''),
             User = username,
             Size = sz,
             Name = filename\<rparr>) fresh))"
proof (intro conjI impI; elim conjE)
  have tok: "''{domain}'' \<noteq> []" "hd ''{domain}'' \<notin> set (tl ''{domain}'')"
    by simp_all
  {
    assume a: "classify p = OEmbed" "collection e (BStr (oembed_key (Base p))) = Some file"
      "get file ''embed'' = BDoc em"
      "get em ''title'' = BStr (join ''{domain}'' ts)"
      "get em ''author'' = BStr (join ''{domain}'' us)"
      and t: "\<forall>t\<in>set ts. \<not> sublist ''{domain}'' t"
      and u: "\<forall>u\<in>set us. \<not> sublist ''{domain}'' u"
    show "requestHandler e host p =
          Some \<lparr>resp_status = 200, resp_location = None,
                resp_content_type = ''application/json'',
                resp_body = [JsonLine (JObject
                  [(''version'', JString ''1.0''),
                   (''type'', JString ''link''),
                   (''title'', JString (join host ts)),
                   (''author_name'', JString (join host us))])]\<rparr>"
      using a
      by (simp add: requestHandler_def oembed_case_def get_put fresh_def SetContentType_def
          Write_def OEmbedResponse_json_def ReplaceAll_join [OF tok t, of host]
          ReplaceAll_join [OF tok u, of host])
  }
  {
    assume a: "classify p = FileResolve" "lookup_file e (Base p) fresh = Inr file"
      "get file ''userOnlyDomain'' \<noteq> BBool True \<or> get file ''domain'' = BStr host"
      and b: "get file ''key'' = BStr key"
      "GetObject e (S3_BUCKET_NAME e) key = Object body contentType"
      "get file ''mimetype'' = BStr mt"
      "get file ''embed'' = BDoc em"
      "get file ''uploader'' = BDoc up"
      "get em ''description'' = BStr (join ''{domain}'' ds)"
      and d: "\<forall>d\<in>set ds. \<not> sublist ''{domain}'' d"
      and c: "get em ''enabled'' = BBool True" "Parse e embedTemplate = None"
      "get file ''filename'' = BStr filename" "get em ''color'' = BStr color"
      "get up ''username'' = BStr username" "get file ''size'' = BStr sz"
    have dom: "\<not> is_true (get file ''userOnlyDomain'') \<or> get file ''domain'' = BStr host"
      using a(3) by (simp add: is_true_def)
    show "requestHandler e host p =
          Some (execute_page e (EmbedPage
            \<lparr>FileURL = S3_ENDPOINT e @ ''/'' @ S3_BUCKET_NAME e @ ''/'' @ key,
             OEmbedURL = ''https://'' @ host @ ''/'' @ filename @ ''.json'',
             Desc = join host ds,
             Color = color,
             Image = (category mt = ''image''),
             Video = (category mt = ''video''),
             User = username,
             Size = sz,
             Name = filename\<rparr>) fresh)"
      unfolding requestHandler_file [OF a(1,2), of host] serve_file_fetched [OF dom b, of fresh]
        ReplaceAll_join [OF tok d]
      by (simp add: c is_true_def)
  }
qed

theorem C5_domain_substitution_witness:
  "requestHandler demo ''a.com'' ''/pic.png.json'' =
     Some \<lparr>resp_status = 200, resp_location = None,
           resp_content_type = ''application/json'',
           resp_body = [JsonLine (JObject
             [(''version'', JString ''1.0''),
              (''type'', JString ''link''),
              (''title'', JString ''a.com - a.com''),
              (''author_name'', JString ''{Domain} by a.com'')])]\<rparr>
   \<and> requestHandler demo ''a.com'' ''/pic.png'' =
     Some \<lparr>resp_status = 200, resp_location = None, resp_content_type = ''text/html'',
           resp_body = [Bytes ''<html embed https://a.com/pic.png.json seen on a.com #{domain}>'']\<rparr>"
proof -
  let ?pic = "file_record ''pic.png'' ''image/png'' (BBool True) ''a.com'' (BBool False) (BBool True)"
  let ?em = "[(''enabled'', BBool True), (''title'', BStr ''{domain} - {domain}''),
              (''author'', BStr ''{Domain} by {domain}''),
              (''description'', BStr ''seen on {domain}''), (''color'', BStr ''#{domain}'')]"
  let ?up = "[(''username'', BStr ''bob'')]"
  have 1: "classify ''/pic.png.json'' = OEmbed
      \<and> collection demo (BStr (oembed_key (Base ''/pic.png.json''))) = Some ?pic
      \<and> get ?pic ''embed'' = BDoc ?em
      \<and> get ?em ''title'' = BStr (join ''{domain}'' [[], '' - '', []])
      \<and> get ?em ''author'' = BStr (join ''{domain}'' [''{Domain} by '', []])
      \<and> (\<forall>t\<in>set [[], '' - '', []]. \<not> sublist ''{domain}'' t)
      \<and> (\<forall>u\<in>set [''{Domain} by '', []]. \<not> sublist ''{domain}'' u)"
    by (simp add: path_defs demo_def demo_files_def oembed_key_def SplitN2_def first_of_def
        file_record_def get_def sublist_Cons_right)
  have 2: "classify ''/pic.png'' = FileResolve
      \<and> lookup_file demo (Base ''/pic.png'') fresh = Inr ?pic
      \<and> (get ?pic ''userOnlyDomain'' \<noteq> BBool True \<or> get ?pic ''domain'' = BStr ''a.com'')
      \<and> get ?pic ''key'' = BStr ''u1/pic.png''
      \<and> GetObject demo (S3_BUCKET_NAME demo) ''u1/pic.png''
          = Object ''bytes of u1/pic.png'' (Some ''type/of-object'')
      \<and> get ?pic ''mimetype'' = BStr ''image/png''
      \<and> get ?pic ''embed'' = BDoc ?em
      \<and> get ?pic ''uploader'' = BDoc ?up
      \<and> get ?em ''description'' = BStr (join ''{domain}'' [''seen on '', []])
      \<and> (\<forall>d\<in>set [''seen on '', []]. \<not> sublist ''{domain}'' d)
      \<and> get ?em ''enabled'' = BBool True \<and> Parse demo embedTemplate = None
      \<and> get ?pic ''filename'' = BStr ''pic.png'' \<and> get ?em ''color'' = BStr ''#{domain}''
      \<and> get ?up ''username'' = BStr ''bob'' \<and> get ?pic ''size'' = BStr ''2 KB''"
    by (simp add: path_defs lookup_file_def demo_def demo_files_def Decode_def
        file_record_def get_def sublist_Cons_right)
  note a = C5_domain_substitution [THEN conjunct1, rule_format, OF 1, of "''a.com''"]
  note b = C5_domain_substitution [THEN conjunct2, rule_format, OF 2]
  from a have "requestHandler demo ''a.com'' ''/pic.png.json'' =
     Some \<lparr>resp_status = 200, resp_location = None,
           resp_content_type = ''application/json'',
           resp_body = [JsonLine (JObject
             [(''version'', JString ''1.0''),
              (''type'', JString ''link''),
              (''title'', JString ''a.com - a.com''),
              (''author_name'', JString ''{Domain} by a.com'')])]\<rparr>"
    by simp
  moreover from b have "requestHandler demo ''a.com'' ''/pic.png'' =
     Some \<lparr>resp_status = 200, resp_location = None, resp_content_type = ''text/html'',
           resp_body = [Bytes ''<html embed https://a.com/pic.png.json seen on a.com #{domain}>'']\<rparr>"
    by (simp add: execute_page_def demo_def demo_render_def SetContentType_def WriteBytes_def
        Write_def fresh_def)
  ultimately show ?thesis by (rule conjI)
qed

section \<open>The key of the oEmbed lookup\<close>

lemma classify_json:
  assumes "suffix ''.json'' (Base p)"
  shows "classify p = OEmbed"
proof -
  have "Base ''/'' = ''/''"
    by (simp add: Base_def strip_trailing_slashes_def after_last_slash_def)
  moreover have "\<not> suffix ''.json'' ''/''"
    by (simp add: suffix_def)
  ultimately have "p \<noteq> ''/''"
    using assms by metis
  with assms show ?thesis
    by (simp add: classify_def Let_def HasSuffix_suffix)
qed

lemma Index_first:
  assumes "tok \<noteq> []" and "hd tok \<notin> set (tl tok)" and "\<not> sublist tok a"
  shows "Index (a @ tok @ b) tok = Some (length a)"
  using assms(3)
proof (induction a)
  case Nil
  show ?case using assms(1) by (cases tok) (simp_all add: HasPrefix_def)
next
  case (Cons x a)
  have "\<not> prefix tok ((x # a) @ tok @ b)"
    using prefix_before_token [OF assms(1,2), of "x # a" b] Cons.prems
    by auto
  moreover have "\<not> sublist tok a"
    using Cons.prems by (simp add: sublist_Cons_right)
  ultimately show ?case
    using Cons.IH by (simp add: HasPrefix_prefix)
qed

text \<open>
  When \<open>.json\<close> occurs in the base segment only as its suffix, the key is the base
  segment without it.
\<close>

lemma oembed_key_single:
  assumes "\<not> sublist ''.json'' b"
  shows "oembed_key (b @ ''.json'') = b"
proof -
  have "Index (b @ ''.json'' @ []) ''.json'' = Some (length b)"
    using assms by (intro Index_first) simp_all
  then show ?thesis
    by (simp add: oembed_key_def SplitN2_def first_of_def)
qed

text \<open>
  Claim C3. A base segment that ends in \<open>.json\<close> is routed to the oEmbed lookup, and
  the key should be the base segment without that suffix. The handler cuts the base
  segment at the first \<open>.json\<close> instead: the oEmbed address of the stored file
  \<open>data.json\<close>, as the embed page prints it, is looked up under the key \<open>data\<close> and
  is not found.
\<close>

theorem C3_key_cut_at_first_json:
  "Base ''/data.json.json'' = ''data.json.json''
   \<and> classify ''/data.json.json'' = OEmbed
   \<and> oembed_key ''data.json.json'' = ''data''
   \<and> collection demo (BStr ''data.json'')
       = Some (file_record ''data.json'' ''application/json'' (BBool False) ''a.com''
                 (BBool False) (BBool False))
   \<and> requestHandler demo ''a.com'' ''/data.json.json'' = Some (error_envelope ''invalid file'')"
  by (simp add: path_defs oembed_key_def SplitN2_def first_of_def demo_def demo_files_def
      requestHandler_def oembed_case_def sendErr_fresh)

section \<open>Invisible aliases\<close>

lemma serve_file_get:
  assumes "\<And>k. get file k = get file' k"
  shows "serve_file e host file ctx = serve_file e host file' ctx"
proof -
  have "get file = get file'"
    using assms by (rule ext)
  then show ?thesis
    unfolding serve_file_def by (simp only:)
qed

lemma get_Decode_covered:
  assumes "fst ` set old \<subseteq> fst ` set d"
  shows "get (Decode old d) k = get d k"
proof (cases "k \<in> fst ` set d")
  case True
  then show ?thesis by (simp add: get_Decode)
next
  case False
  with assms have "k \<notin> fst ` set old" by blast
  with False have "map_of old k = None" "map_of d k = None"
    by (simp_all add: map_of_eq_None_iff)
  then show ?thesis
    by (simp add: get_def Decode_def map_add_def)
qed

lemma lookup_file_alias:
  assumes "suffix zwsp b" and "invisibleURL e b = Some al"
    and "collection e (get al ''filename'') = Some f"
  shows "lookup_file e b ctx = Inr (Decode al f)"
  using assms by (simp add: lookup_file_def HasSuffix_suffix Decode_def)

lemma lookup_file_direct:
  assumes "\<not> suffix zwsp b" and "collection e (BStr b) = Some f"
  shows "lookup_file e b ctx = Inr f"
  using assms by (simp add: lookup_file_def HasSuffix_suffix Decode_def)

text \<open>
  Claim C6, as the handler has it. Let an alias record name, by a string, a file record
  that exists and that has every field the alias record has. If the request for the
  filename is itself a direct file request (the filename is the base segment of its
  path and does not end in U+200B, and the path is routed to the file lookup), then the
  request for the alias and the request for the filename get the same response. The
  oEmbed address on the embed page of an alias request is built from the \<open>filename\<close>
  field of the file record.
\<close>

theorem C6_alias_indirection:
  assumes "classify pa = FileResolve" and "suffix zwsp (Base pa)"
    and "invisibleURL e (Base pa) = Some al"
    and "get al ''filename'' = BStr fn"
    and "collection e (BStr fn) = Some f"
    and "fst ` set al \<subseteq> fst ` set f"
  shows
    "(classify pd = FileResolve \<and> Base pd = fn \<and> \<not> suffix zwsp fn
      \<longrightarrow> requestHandler e host pa = requestHandler e host pd)
     \<and> ((get f ''userOnlyDomain'' \<noteq> BBool True \<or> get f ''domain'' = BStr host)
        \<and> get f ''key'' = BStr key
        \<and> GetObject e (S3_BUCKET_NAME e) key = Object body contentType
        \<and> get f ''mimetype'' = BStr mt
        \<and> get f ''embed'' = BDoc em
        \<and> get f ''uploader'' = BDoc up
        \<and> get em ''description'' = BStr description
        \<and> get em ''enabled'' = BBool True \<and> Parse e embedTemplate = None
        \<and> get f ''filename'' = BStr filename \<and> get em ''color'' = BStr color
        \<and> get up ''username'' = BStr username \<and> get f ''size'' = BStr sz
      \<longrightarrow> requestHandler e host pa =
            Some (execute_page e (EmbedPage
              \<lparr>FileURL = S3_ENDPOINT e @ ''/'' @ S3_BUCKET_NAME e @ ''/'' @ key,
               OEmbedURL = ''https://'' @ host @ ''/'' @ filename @ ''.json'',
               Desc = ReplaceAll description ''{domain}'' host,
               Color = color,
               Image = (category mt = ''image''),
               Video = (category mt = ''video''),
               User = username,
               Size = sz,
               Name = filename\<rparr>) fresh))"
proof -
  have la: "lookup_file e (Base pa) fresh = Inr (Decode al f)"
    using assms(2-5) by (simp add: lookup_file_alias)
  have same: "serve_file e host (Decode al f) fresh = serve_file e host f fresh"
    by (rule serve_file_get) (rule get_Decode_covered [OF assms(6)])
  have ali: "requestHandler e host pa = serve_file e host f fresh"
    unfolding requestHandler_file [OF assms(1) la, of host] same ..
  show ?thesis
  proof (intro conjI impI; elim conjE)
    assume d: "classify pd = FileResolve" "Base pd = fn" "\<not> suffix zwsp fn"
    then have "lookup_file e (Base pd) fresh = Inr f"
      using assms(5) by (simp add: lookup_file_direct)
    from requestHandler_file [OF d(1) this, of host] ali
    show "requestHandler e host pa = requestHandler e host pd"
      by simp
  next
    assume a: "get f ''userOnlyDomain'' \<noteq> BBool True \<or> get f ''domain'' = BStr host"
      and b: "get f ''key'' = BStr key"
      "GetObject e (S3_BUCKET_NAME e) key = Object body contentType"
      "get f ''mimetype'' = BStr mt"
      "get f ''embed'' = BDoc em"
      "get f ''uploader'' = BDoc up"
      "get em ''description'' = BStr description"
      and c: "get em ''enabled'' = BBool True" "Parse e embedTemplate = None"
      "get f ''filename'' = BStr filename" "get em ''color'' = BStr color"
      "get up ''username'' = BStr username" "get f ''size'' = BStr sz"
    have dom: "\<not> is_true (get f ''userOnlyDomain'') \<or> get f ''domain'' = BStr host"
      using a by (simp add: is_true_def)
    show "requestHandler e host pa =
            Some (execute_page e (EmbedPage
              \<lparr>FileURL = S3_ENDPOINT e @ ''/'' @ S3_BUCKET_NAME e @ ''/'' @ key,
               OEmbedURL = ''https://'' @ host @ ''/'' @ filename @ ''.json'',
               Desc = ReplaceAll description ''{domain}'' host,
               Color = color,
               Image = (category mt = ''image''),
               Video = (category mt = ''video''),
               User = username,
               Size = sz,
               Name = filename\<rparr>) fresh)"
      unfolding ali serve_file_fetched [OF dom b, of fresh]
      by (simp add: c is_true_def)
  qed
qed

text \<open>
  Where the claim fails as it is written. The alias of the stored file \<open>data.json\<close>
  serves the file, and the request for \<open>/data.json\<close> is an oEmbed request, for the
  key \<open>data\<close>. The alias record of \<open>bare.png\<close> carries a \<open>showLink\<close> field that the
  file record lacks: the field stays in the map the file record is decoded into, and the
  alias request gets the show-link page where the direct request gets the bytes.
\<close>

theorem C6_alias_indirection_counterexample:
  "invisibleURL demo (''dj'' @ zwsp)
     = Some [(''_id'', BStr (''dj'' @ zwsp)), (''filename'', BStr ''data.json'')]
   \<and> collection demo (BStr ''data.json'')
     = Some (file_record ''data.json'' ''application/json'' (BBool False) ''a.com''
               (BBool False) (BBool False))
   \<and> requestHandler demo ''a.com'' (''/dj'' @ zwsp) =
     Some \<lparr>resp_status = 200, resp_location = None, resp_content_type = ''type/of-object'',
           resp_body = [Bytes ''bytes of u1/data.json'']\<rparr>
   \<and> requestHandler demo ''a.com'' ''/data.json'' = Some (error_envelope ''invalid file'')
   \<and> invisibleURL demo (''b'' @ zwsp)
     = Some [(''_id'', BStr (''b'' @ zwsp)), (''filename'', BStr ''bare.png''),
             (''showLink'', BBool True)]
   \<and> collection demo (BStr ''bare.png'') = Some bare_record
   \<and> requestHandler demo ''a.com'' (''/b'' @ zwsp) =
     Some \<lparr>resp_status = 200, resp_location = None, resp_content_type = ''text/html'',
           resp_body = [Bytes ''<html img http://s3.local/bkt/u1/bare.png>'']\<rparr>
   \<and> requestHandler demo ''a.com'' ''/bare.png'' =
     Some \<lparr>resp_status = 200, resp_location = None, resp_content_type = ''type/of-object'',
           resp_body = [Bytes ''bytes of u1/bare.png'']\<rparr>"
proof -
  have 1: "requestHandler demo ''a.com'' (''/dj'' @ zwsp) =
     Some \<lparr>resp_status = 200, resp_location = None, resp_content_type = ''type/of-object'',
           resp_body = [Bytes ''bytes of u1/data.json'']\<rparr>"
    by (simp add: requestHandler_def path_defs file_case_def lookup_file_def demo_defs
        Decode_def serve_file_def is_true_def get_def put_def SplitN2_def first_of_def
        raw_bytes deref_def)
  have 2: "requestHandler demo ''a.com'' ''/data.json'' = Some (error_envelope ''invalid file'')"
    by (simp add: requestHandler_def path_defs oembed_case_def oembed_key_def SplitN2_def
        first_of_def demo_defs sendErr_fresh)
  have 3: "requestHandler demo ''a.com'' (''/b'' @ zwsp) =
     Some \<lparr>resp_status = 200, resp_location = None, resp_content_type = ''text/html'',
           resp_body = [Bytes ''<html img http://s3.local/bkt/u1/bare.png>'']\<rparr>"
    by (simp add: requestHandler_def path_defs file_case_def lookup_file_def demo_defs
        Decode_def serve_file_def is_true_def get_def put_def SplitN2_def first_of_def
        execute_page_def SetContentType_def WriteBytes_def Write_def fresh_def)
  have 4: "requestHandler demo ''a.com'' ''/bare.png'' =
     Some \<lparr>resp_status = 200, resp_location = None, resp_content_type = ''type/of-object'',
           resp_body = [Bytes ''bytes of u1/bare.png'']\<rparr>"
    by (simp add: requestHandler_def path_defs file_case_def lookup_file_def demo_defs
        Decode_def serve_file_def is_true_def get_def put_def SplitN2_def first_of_def
        raw_bytes deref_def)
  have 5: "invisibleURL demo (''dj'' @ zwsp)
     = Some [(''_id'', BStr (''dj'' @ zwsp)), (''filename'', BStr ''data.json'')]"
    and 6: "collection demo (BStr ''data.json'')
     = Some (file_record ''data.json'' ''application/json'' (BBool False) ''a.com''
               (BBool False) (BBool False))"
    and 7: "invisibleURL demo (''b'' @ zwsp)
     = Some [(''_id'', BStr (''b'' @ zwsp)), (''filename'', BStr ''bare.png''),
             (''showLink'', BBool True)]"
    and 8: "collection demo (BStr ''bare.png'') = Some bare_record"
    by (simp_all add: demo_def demo_aliases_def demo_files_def zwsp_def)
  from 5 6 1 2 7 8 3 4 show ?thesis by (intro conjI)
qed

theorem C6_alias_indirection_witness:
  "requestHandler demo ''a.com'' (''/abc'' @ zwsp) = requestHandler demo ''a.com'' ''/pic.png''
   \<and> requestHandler demo ''a.com'' (''/abc'' @ zwsp) =
     Some \<lparr>resp_status = 200, resp_location = None, resp_content_type = ''text/html'',
           resp_body = [Bytes ''<html embed https://a.com/pic.png.json seen on a.com #{domain}>'']\<rparr>"
proof -
  let ?pic = "file_record ''pic.png'' ''image/png'' (BBool True) ''a.com'' (BBool False) (BBool True)"
  let ?al = "[(''_id'', BStr (''abc'' @ zwsp)), (''filename'', BStr ''pic.png'')]"
  let ?em = "[(''enabled'', BBool True), (''title'', BStr ''{domain} - {domain}''),
              (''author'', BStr ''{Domain} by {domain}''),
              (''description'', BStr ''seen on {domain}''), (''color'', BStr ''#{domain}'')]"
  let ?up = "[(''username'', BStr ''bob'')]"
  have c: "classify (''/abc'' @ zwsp) = FileResolve"
    and s: "suffix zwsp (Base (''/abc'' @ zwsp))"
    by (simp_all add: path_defs flip: HasSuffix_suffix)
  have i: "invisibleURL demo (Base (''/abc'' @ zwsp)) = Some ?al"
    by (simp add: path_defs demo_def demo_aliases_def)
  have n: "get ?al ''filename'' = BStr ''pic.png''"
    by (simp add: get_def)
  have f: "collection demo (BStr ''pic.png'') = Some ?pic"
    by (simp add: demo_def demo_files_def)
  have k: "fst ` set ?al \<subseteq> fst ` set ?pic"
    by (simp add: file_record_def)
  note t = C6_alias_indirection [OF c s i n f k]
  have 1: "classify ''/pic.png'' = FileResolve \<and> Base ''/pic.png'' = ''pic.png''
      \<and> \<not> suffix zwsp ''pic.png''"
    by (simp add: path_defs flip: HasSuffix_suffix)
  have 2: "(get ?pic ''userOnlyDomain'' \<noteq> BBool True \<or> get ?pic ''domain'' = BStr ''a.com'')
      \<and> get ?pic ''key'' = BStr ''u1/pic.png''
      \<and> GetObject demo (S3_BUCKET_NAME demo) ''u1/pic.png''
          = Object ''bytes of u1/pic.png'' (Some ''type/of-object'')
      \<and> get ?pic ''mimetype'' = BStr ''image/png''
      \<and> get ?pic ''embed'' = BDoc ?em
      \<and> get ?pic ''uploader'' = BDoc ?up
      \<and> get ?em ''description'' = BStr ''seen on {domain}''
      \<and> get ?em ''enabled'' = BBool True \<and> Parse demo embedTemplate = None
      \<and> get ?pic ''filename'' = BStr ''pic.png'' \<and> get ?em ''color'' = BStr ''#{domain}''
      \<and> get ?up ''username'' = BStr ''bob'' \<and> get ?pic ''size'' = BStr ''2 KB''"
    by (simp add: demo_def file_record_def get_def)
  note a = t [THEN conjunct1, rule_format, OF 1, of "''a.com''"]
  note b = t [THEN conjunct2, rule_format, OF 2]
  from b have "requestHandler demo ''a.com'' (''/abc'' @ zwsp) =
     Some \<lparr>resp_status = 200, resp_location = None, resp_content_type = ''text/html'',
           resp_body = [Bytes ''<html embed https://a.com/pic.png.json seen on a.com #{domain}>'']\<rparr>"
    by (simp add: execute_page_def demo_def demo_render_def SetContentType_def WriteBytes_def
        Write_def fresh_def HasPrefix_def)
  with a show ?thesis by (rule conjI)
qed

section \<open>The body of an error response\<close>

text \<open>The three ways in which the handler answers a file request once the record is found.\<close>

lemma serve_file_outcomes:
  assumes "serve_file e host file ctx = Some r"
  shows "(\<exists>m. r = sendErr ctx m)
    \<or> (\<exists>b t. r = SetBody b (SetContentType t ctx))
    \<or> (\<exists>pg. r = execute_page e pg ctx)"
  using assms unfolding serve_file_def Let_def
  by (auto split: bind_splits if_splits s3_result.splits option.splits)

lemma sendErr_envelope:
  assumes "JsonLine (Response_json False msg) \<in> set (resp_body (sendErr fresh m))"
  shows "sendErr fresh m = error_envelope msg"
  using assms
  by (simp add: sendErr_def Write_def SetContentType_def fresh_def Response_json_def
      error_envelope_def)

lemma raw_no_envelope:
  "JsonLine j \<notin> set (resp_body (SetBody b (SetContentType t fresh)))"
  by (simp add: SetBody_def)

lemma execute_page_failed:
  "Execute e pg = Inl msg \<Longrightarrow> execute_page e pg fresh = error_envelope msg"
  by (simp add: execute_page_def SetContentType_def Write_def fresh_def sendErr_def
      Response_json_def error_envelope_def)

lemma execute_page_envelope:
  assumes "JsonLine (Response_json False msg) \<in> set (resp_body (execute_page e pg fresh))"
  shows "execute_page e pg fresh = error_envelope msg"
proof (cases "Execute e pg")
  case (Inr out)
  with assms show ?thesis
    by (simp add: execute_page_def Let_def SetContentType_def WriteBytes_def Write_def
        fresh_def split: if_splits)
next
  case (Inl m)
  with assms have "m = msg"
    by (simp add: execute_page_def SetContentType_def Write_def fresh_def sendErr_def
        Response_json_def)
  with Inl show ?thesis
    by (simp add: execute_page_failed)
qed

lemma envelope_only:
  assumes "requestHandler e host p = Some r"
    and "JsonLine (Response_json False msg) \<in> set (resp_body r)"
  shows "r = error_envelope msg"
proof (cases "classify p")
  case RootRedirect
  with assms show ?thesis
    by (auto simp: requestHandler_def Redirect_def fresh_def)
next
  case OEmbed
  with assms(1) have o: "oembed_case e host (Base p) fresh = Some r"
    by (simp add: requestHandler_def)
  show ?thesis
  proof (cases "collection e (BStr (oembed_key (Base p)))")
    case None
    with o have "r = sendErr fresh ''invalid file''"
      by (simp add: oembed_case_def)
    with assms(2) show ?thesis by (simp add: sendErr_envelope)
  next
    case (Some d0)
    with o obtain t a where
      "r = Write (JsonLine (OEmbedResponse_json ''1.0'' ''link'' t a))
             (SetContentType ''application/json'' fresh)"
      by (auto simp: oembed_case_def Let_def split: bind_splits)
    with assms(2) show ?thesis
      by (simp add: Write_def SetContentType_def fresh_def OEmbedResponse_json_def
          Response_json_def)
  qed
next
  case ShortLink
  with assms(1) have o: "shortlink_case e host p (Base p) fresh = Some r"
    by (simp add: requestHandler_def)
  show ?thesis
  proof (cases "shortenerCol e (Base p)")
    case None
    with o have "r = sendErr fresh ''invalid short link''"
      by (simp add: shortlink_case_def)
    with assms(2) show ?thesis by (simp add: sendErr_envelope)
  next
    case (Some shortened)
    with o obtain d where "r = Redirect e host p d 301 fresh"
      by (auto simp: shortlink_case_def split: bind_splits)
    with assms(2) show ?thesis
      by (simp add: Redirect_def fresh_def)
  qed
next
  case FileResolve
  show ?thesis
  proof (cases "lookup_file e (Base p) fresh")
    case (Inl r')
    with FileResolve assms(1) have r: "r = r'"
      by (simp add: requestHandler_def file_case_def)
    from Inl obtain m where "r' = sendErr fresh m"
      by (auto simp: lookup_file_def Let_def split: if_splits option.splits)
    with r assms(2) show ?thesis
      by (simp add: sendErr_envelope)
  next
    case (Inr fl)
    with FileResolve assms(1) have "serve_file e host fl fresh = Some r"
      by (simp add: requestHandler_def file_case_def)
    from serve_file_outcomes [OF this] show ?thesis
    proof (elim disjE exE)
      fix m assume "r = sendErr fresh m"
      with assms(2) show ?thesis by (simp add: sendErr_envelope)
    next
      fix b t assume "r = SetBody b (SetContentType t fresh)"
      with assms(2) show ?thesis by (simp add: raw_no_envelope)
    next
      fix pg assume "r = execute_page e pg fresh"
      with assms(2) show ?thesis by (simp add: execute_page_envelope)
    qed
  qed
next
  case NoOp
  with assms show ?thesis
    by (auto simp: requestHandler_def fresh_def)
qed

lemma serve_file_fetch_failed:
  assumes "\<not> is_true (get file ''userOnlyDomain'') \<or> get file ''domain'' = BStr host"
    and "get file ''key'' = BStr key"
    and "GetObject e (S3_BUCKET_NAME e) key = GetObjectError msg
      \<or> GetObject e (S3_BUCKET_NAME e) key = ReadAllError msg"
  shows "serve_file e host file fresh = Some (error_envelope msg)"
proof -
  have rej: "(if is_true (get file ''userOnlyDomain'')
        then map_option (\<lambda>d. host \<noteq> d) (as_string (get file ''domain''))
        else Some False) = Some False"
    using assms(1) by auto
  show ?thesis
    unfolding serve_file_def rej using assms(2,3)
    by (auto simp: sendErr_fresh)
qed

text \<open>
  Claim C8. On every error path, the response is the error envelope and nothing else.
  First, whatever the request, a response that carries an error envelope consists of
  that envelope alone. Then path by path: a lookup that misses, the rejection by the
  domain check, a failure of the fetch or of the reading of the object, a template that
  does not parse and a template that fails to run each give the bare envelope with
  their message.
\<close>

theorem C8_error_body:
  "(requestHandler e host p = Some r \<and> JsonLine (Response_json False msg) \<in> set (resp_body r)
      \<longrightarrow> r = error_envelope msg)
   \<and> (classify p = OEmbed \<and> collection e (BStr (oembed_key (Base p))) = None
      \<longrightarrow> requestHandler e host p = Some (error_envelope ''invalid file''))
   \<and> (classify p = ShortLink \<and> shortenerCol e (Base p) = None
      \<longrightarrow> requestHandler e host p = Some (error_envelope ''invalid short link''))
   \<and> (classify p = FileResolve \<and> suffix zwsp (Base p) \<and> invisibleURL e (Base p) = None
      \<longrightarrow> requestHandler e host p = Some (error_envelope ''no invisible url or file was found''))
   \<and> (classify p = FileResolve \<and> suffix zwsp (Base p) \<and> invisibleURL e (Base p) = Some al
        \<and> collection e (get al ''filename'') = None
      \<longrightarrow> requestHandler e host p = Some (error_envelope ''invalid file''))
   \<and> (classify p = FileResolve \<and> \<not> suffix zwsp (Base p) \<and> collection e (BStr (Base p)) = None
      \<longrightarrow> requestHandler e host p = Some (error_envelope ''invalid file''))
   \<and> (classify p = FileResolve \<and> lookup_file e (Base p) fresh = Inr fl
      \<longrightarrow>
        (get fl ''userOnlyDomain'' = BBool True \<and> get fl ''domain'' = BStr d \<and> host \<noteq> d
          \<longrightarrow> requestHandler e host p = Some (error_envelope ''invalid file''))
      \<and> ((get fl ''userOnlyDomain'' \<noteq> BBool True \<or> get fl ''domain'' = BStr host)
          \<and> get fl ''key'' = BStr key
          \<longrightarrow>
            (GetObject e (S3_BUCKET_NAME e) key = GetObjectError msg
              \<longrightarrow> requestHandler e host p = Some (error_envelope msg))
          \<and> (GetObject e (S3_BUCKET_NAME e) key = ReadAllError msg
              \<longrightarrow> requestHandler e host p = Some (error_envelope msg))
          \<and> (GetObject e (S3_BUCKET_NAME e) key = Object body contentType
              \<and> get fl ''mimetype'' = BStr mt
              \<and> get fl ''embed'' = BDoc em
              \<and> get fl ''uploader'' = BDoc up
              \<and> get em ''description'' = BStr description
              \<longrightarrow>
                (get em ''enabled'' = BBool True \<and> Parse e embedTemplate = Some msg
                  \<longrightarrow> requestHandler e host p = Some (error_envelope msg))
              \<and> (get em ''enabled'' = BBool True \<and> Parse e embedTemplate = None
                  \<and> get fl ''filename'' = BStr filename \<and> get em ''color'' = BStr color
                  \<and> get up ''username'' = BStr username \<and> get fl ''size'' = BStr sz
                  \<and> Execute e (EmbedPage
                        \<lparr>FileURL = S3_ENDPOINT e @ ''/'' @ S3_BUCKET_NAME e @ ''/'' @ key,
                         OEmbedURL = ''https://'' @ host @ ''/'' @ filename @ ''.json'',
                         Desc = ReplaceAll description ''{domain}'' host,
                         Color = color,
                         Image = (category mt = ''image''),
                         Video = (category mt = ''video''),
                         User = username,
                         Size = sz,
                         Name = filename\<rparr>) = Inl msg
                  \<longrightarrow> requestHandler e host p = Some (error_envelope msg))
              \<and> (get em ''enabled'' \<noteq> BBool True \<and> get fl ''showLink'' = BBool True
                  \<and> category mt \<noteq> ''video'' \<and> Parse e showLinkTemplate = Some msg
                  \<longrightarrow> requestHandler e host p = Some (error_envelope msg))
              \<and> (get em ''enabled'' \<noteq> BBool True \<and> get fl ''showLink'' = BBool True
                  \<and> category mt \<noteq> ''video'' \<and> Parse e showLinkTemplate = None
                  \<and> Execute e (ShowLinkPage
                        (S3_ENDPOINT e @ ''/'' @ S3_BUCKET_NAME e @ ''/'' @ key)) = Inl msg
                  \<longrightarrow> requestHandler e host p = Some (error_envelope msg)))))"
  (is "?G \<and> ?M1 \<and> ?M2 \<and> ?M3 \<and> ?M4 \<and> ?M5
      \<and> (?A \<longrightarrow> ?D \<and> (?B \<longrightarrow> ?U1 \<and> ?U2 \<and> (?C \<longrightarrow> ?P)))")
proof -
  have general: ?G
    using envelope_only by blast
  have misses: "?M1 \<and> ?M2 \<and> ?M3 \<and> ?M4 \<and> ?M5"
    by (simp add: requestHandler_def oembed_case_def shortlink_case_def file_case_def
        lookup_file_def sendErr_fresh HasSuffix_suffix Decode_def)
  have found: "?D \<and> (?B \<longrightarrow> ?U1 \<and> ?U2 \<and> (?C \<longrightarrow> ?P))" if A: ?A
  proof -
    from A have "classify p = FileResolve" and "lookup_file e (Base p) fresh = Inr fl"
      by simp_all
    note req = requestHandler_file [OF this, of host]
    have rejected: ?D
      unfolding req by (auto intro: serve_file_rejected)
    have passed: "?U1 \<and> ?U2 \<and> (?C \<longrightarrow> ?P)" if B: ?B
    proof -
      from B have "\<not> is_true (get fl ''userOnlyDomain'') \<or> get fl ''domain'' = BStr host"
        and "get fl ''key'' = BStr key"
        by (simp_all add: is_true_def)
      note dk = this
      have get_failed: ?U1
        unfolding req using serve_file_fetch_failed [OF dk, of e msg] by simp
      have read_failed: ?U2
        unfolding req using serve_file_fetch_failed [OF dk, of e msg] by simp
      have pages: ?P if C: ?C
      proof -
        from C have "GetObject e (S3_BUCKET_NAME e) key = Object body contentType"
          and "get fl ''mimetype'' = BStr mt"
          and "get fl ''embed'' = BDoc em"
          and "get fl ''uploader'' = BDoc up"
          and "get em ''description'' = BStr description"
          by simp_all
        note shape = serve_file_fetched [OF dk this, of fresh]
        show ?thesis
          unfolding req shape
          by (simp add: is_true_def sendErr_fresh execute_page_failed)
      qed
      from get_failed read_failed pages show ?thesis by blast
    qed
    from rejected passed show ?thesis by blast
  qed
  from general misses found show ?thesis by blast
qed

theorem C8_error_body_witness:
  "requestHandler demo ''a.com'' ''/broken.bin'' = Some (error_envelope ''NoSuchKey'')
   \<and> requestHandler demo ''b.com'' ''/pic.png'' = Some (error_envelope ''invalid file'')
   \<and> requestHandler demo ''a.com'' ''/nothing.png'' = Some (error_envelope ''invalid file'')
   \<and> JsonLine (Response_json False ''NoSuchKey'')
       \<in> set (resp_body (error_envelope ''NoSuchKey''))"
proof -
  let ?broken = "file_record ''broken.bin'' ''application/octet-stream'' (BBool False) ''a.com''
      (BBool False) (BBool False)"
  let ?pic = "file_record ''pic.png'' ''image/png'' (BBool True) ''a.com'' (BBool False) (BBool True)"
  have 1: "classify ''/broken.bin'' = FileResolve
      \<and> lookup_file demo (Base ''/broken.bin'') fresh = Inr ?broken"
    by (simp add: lookup_file_def path_defs demo_def demo_files_def Decode_def)
  have 2: "(get ?broken ''userOnlyDomain'' \<noteq> BBool True \<or> get ?broken ''domain'' = BStr ''a.com'')
      \<and> get ?broken ''key'' = BStr ''u1/broken.bin''"
    by (simp add: file_record_def get_def)
  have 3: "GetObject demo (S3_BUCKET_NAME demo) ''u1/broken.bin'' = GetObjectError ''NoSuchKey''"
    by (simp add: demo_def)
  have 4: "classify ''/pic.png'' = FileResolve
      \<and> lookup_file demo (Base ''/pic.png'') fresh = Inr ?pic"
    by (simp add: lookup_file_def path_defs demo_def demo_files_def Decode_def)
  have 5: "get ?pic ''userOnlyDomain'' = BBool True \<and> get ?pic ''domain'' = BStr ''a.com''
      \<and> ''b.com'' \<noteq> ''a.com''"
    by (simp add: file_record_def get_def)
  have 6: "classify ''/nothing.png'' = FileResolve \<and> \<not> suffix zwsp (Base ''/nothing.png'')
      \<and> collection demo (BStr (Base ''/nothing.png'')) = None"
    by (simp add: path_defs demo_defs flip: HasSuffix_suffix)
  note fetch = C8_error_body [where p = "''/broken.bin''" and e = demo and host = "''a.com''"
      and fl = ?broken and key = "''u1/broken.bin''" and msg = "''NoSuchKey''",
      THEN conjunct2, THEN conjunct2, THEN conjunct2, THEN conjunct2, THEN conjunct2,
      THEN conjunct2, rule_format, OF 1, THEN conjunct2, rule_format, OF 2, THEN conjunct1,
      rule_format, OF 3]
  note rejected = C8_error_body [where p = "''/pic.png''" and e = demo and host = "''b.com''"
      and fl = ?pic and d = "''a.com''",
      THEN conjunct2, THEN conjunct2, THEN conjunct2, THEN conjunct2, THEN conjunct2,
      THEN conjunct2, rule_format, OF 4, THEN conjunct1, rule_format, OF 5]
  note missed = C8_error_body [where p = "''/nothing.png''" and e = demo and host = "''a.com''",
      THEN conjunct2, THEN conjunct2, THEN conjunct2, THEN conjunct2, THEN conjunct2,
      THEN conjunct1, rule_format, OF 6]
  have 7: "JsonLine (Response_json False ''NoSuchKey'')
      \<in> set (resp_body (error_envelope ''NoSuchKey''))"
    by (simp add: error_envelope_def Response_json_def)
  from fetch rejected missed 7 show ?thesis by (intro conjI)
qed

section \<open>The flags\<close>












end
